theory Spec2Isabelle
  imports Complex_Main "HOL-Library.Word" "HOL-Library.Multiset"
begin

unbundle bit_operations_syntax

section \<open>Vehicle <-> GCS communication of the terrain library (TerrainGCS.cpp)\<close>

subsection \<open>Constants of AP\_Terrain.h\<close>

text \<open>
  Modelled from the spec: the block geometry macros are declared in AP\_Terrain.h, a header
  outside TerrainGCS.cpp. The spec fixes the number of sub-chunks per tile at 56;
  TerrainGCS.cpp itself tests \<open>gridbit < 56\<close>, speaks of 4x4 grids, offsets a full block by
  \<open>28*grid_spacing\<close> and \<open>32*grid_spacing\<close> and reads \<open>height[27][31]\<close> as the last cell.
\<close>

definition TERRAIN_GRID_MAVLINK_SIZE :: nat where
  "TERRAIN_GRID_MAVLINK_SIZE = 4"

definition TERRAIN_GRID_BLOCK_MUL_X :: nat where
  "TERRAIN_GRID_BLOCK_MUL_X = 7"

definition TERRAIN_GRID_BLOCK_MUL_Y :: nat where
  "TERRAIN_GRID_BLOCK_MUL_Y = 8"

definition TERRAIN_GRID_BLOCK_SIZE_X :: nat where
  "TERRAIN_GRID_BLOCK_SIZE_X = TERRAIN_GRID_MAVLINK_SIZE * TERRAIN_GRID_BLOCK_MUL_X"

definition TERRAIN_GRID_BLOCK_SIZE_Y :: nat where
  "TERRAIN_GRID_BLOCK_SIZE_Y = TERRAIN_GRID_MAVLINK_SIZE * TERRAIN_GRID_BLOCK_MUL_Y"

text \<open>
  Modelled from the spec: \<open>bitmap_mask\<close> is the constant full mask of a tile, one bit per
  sub-chunk (a member of the class declared in AP\_Terrain.h).
\<close>

definition bitmap_mask :: "64 word" where
  "bitmap_mask = push_bit (TERRAIN_GRID_BLOCK_MUL_X * TERRAIN_GRID_BLOCK_MUL_Y) 1 - 1"

subsection \<open>Data model\<close>

text \<open>
  Modelled from the spec: the lifecycle enumeration of a cache entry, in the order
  Invalid, DiskWait, Valid, Dirty; \<open>state_ord\<close> is the ordinal the source compares with
  \<open>state >= GRID_CACHE_VALID\<close>.
\<close>

datatype GridCacheState =
  GRID_CACHE_INVALID | GRID_CACHE_DISKWAIT | GRID_CACHE_VALID | GRID_CACHE_DIRTY

fun state_ord :: "GridCacheState \<Rightarrow> nat" where
  "state_ord GRID_CACHE_INVALID = 0"
| "state_ord GRID_CACHE_DISKWAIT = 1"
| "state_ord GRID_CACHE_VALID = 2"
| "state_ord GRID_CACHE_DIRTY = 3"

text \<open>
  \<open>struct grid_block\<close>: the fields TerrainGCS.cpp touches. \<open>height\<close> is the
  matrix \<open>int16_t height[28][32]\<close>, a list of rows.
\<close>

record grid_block =
  bitmap :: "64 word"
  lat :: "32 word"
  lon :: "32 word"
  spacing :: "16 word"
  height :: "16 word list list"

record grid_cache =
  grid :: grid_block
  state :: GridCacheState

text \<open>\<open>struct Location\<close>: latitude and longitude in 1e-7 degrees.\<close>

record Location =
  loc_lat :: "32 word"
  loc_lng :: "32 word"

text \<open>The decoded payloads of TERRAIN\_DATA and TERRAIN\_CHECK.\<close>

record mavlink_terrain_data_t =
  pkt_lat :: "32 word"
  pkt_lon :: "32 word"
  pkt_grid_spacing :: "16 word"
  gridbit :: "8 word"
  data :: "16 word list"

record mavlink_terrain_check_t =
  chk_lat :: "32 word"
  chk_lon :: "32 word"

datatype mavlink_message_t =
  MSG_TERRAIN_DATA mavlink_terrain_data_t
| MSG_TERRAIN_CHECK mavlink_terrain_check_t
| MSG_OTHER nat

type_synonym mavlink_channel_t = nat

text \<open>
  The messages the library sends: \<open>mavlink_msg_terrain_request_send\<close> and
  \<open>mavlink_msg_terrain_report_send\<close> with their arguments. \<open>'f\<close> is the type of
  single-precision floats, kept abstract.
\<close>

datatype 'f out_msg =
  TERRAIN_REQUEST mavlink_channel_t "32 word" "32 word" "16 word" "64 word"
| TERRAIN_REPORT mavlink_channel_t "32 word" "32 word" "16 word" 'f "16 word" "16 word"

fun is_request :: "'f out_msg \<Rightarrow> bool" where
  "is_request (TERRAIN_REQUEST c a b s m) = True"
| "is_request (TERRAIN_REPORT c a b s h p l) = False"

text \<open>
  The members of \<open>AP_Terrain\<close> read or written here. \<open>collab\<close> is the private state
  of the tile cache and disk IO engine (access times, pending IO), opaque to this file.
\<close>

record 'e terrain =
  enable :: "8 word"
  grid_spacing :: "16 word"
  last_request_time_ms :: "32 word"
  cache :: "grid_cache list"
  collab :: 'e

text \<open>
  A run either returns or stops at undefined behaviour of the C++: an array access out of
  bounds, or a failed assertion of a debug build.
\<close>

datatype fault = OutOfBounds | AssertFailed

subsection \<open>bitcount64\<close>

text \<open>
  \<open>__builtin_popcount\<close> is the compiler's builtin: the number of one bits of an
  \<open>unsigned\<close> (32 bits).
\<close>

definition builtin_popcount :: "32 word \<Rightarrow> nat" where
  "builtin_popcount x = length (filter (bit x) [0..<32])"

definition bitcount64 :: "64 word \<Rightarrow> 8 word" where
  "bitcount64 b =
     of_nat (builtin_popcount (ucast (b AND 0xFFFFFFFF)) + builtin_popcount (ucast (drop_bit 32 b)))"

subsection \<open>get\_statistics\<close>

text \<open>
  The loop over the cache table; \<open>pending\<close> and \<open>loaded\<close> are \<open>uint16_t\<close>,
  \<open>maskbits\<close> and \<open>bitcount\<close> are \<open>uint8_t\<close> promoted to \<open>int\<close> before the
  subtraction, and the sum is cut to 16 bits on assignment.
\<close>

function get_statistics_loop :: "grid_cache list \<Rightarrow> nat \<Rightarrow> 16 word \<times> 16 word \<Rightarrow> 16 word \<times> 16 word" where
  "get_statistics_loop cs i (pending, loaded) =
     (if i < length cs then
        (if state (cs ! i) = GRID_CACHE_INVALID then get_statistics_loop cs (Suc i) (pending, loaded)
         else
           let maskbits = (of_nat (TERRAIN_GRID_BLOCK_MUL_X * TERRAIN_GRID_BLOCK_MUL_Y) :: 8 word) in
           if state (cs ! i) = GRID_CACHE_DISKWAIT then
             get_statistics_loop cs (Suc i) (word_of_int (uint pending + uint maskbits), loaded)
           else
             let bitcount = bitcount64 (bitmap (grid (cs ! i))) in
             get_statistics_loop cs (Suc i)
               (word_of_int (uint pending + (uint maskbits - uint bitcount)),
                word_of_int (uint loaded + uint bitcount)))
      else (pending, loaded))"
  by pat_completeness auto
termination
  by (relation "measure (\<lambda>(cs, i, acc). length cs - i)") auto

declare get_statistics_loop.simps [simp del]

definition get_statistics :: "'e terrain \<Rightarrow> 16 word \<times> 16 word" where
  "get_statistics t = get_statistics_loop (cache t) 0 (0, 0)"

subsection \<open>request\_missing\<close>

text \<open>
  \<open>request_missing(chan, gcache)\<close>: \<open>now\<close> is what \<open>hal.scheduler->millis()\<close>
  returns when the request is sent. The result is the returned flag, the messages sent and
  the object afterwards.
\<close>

definition request_missing ::
  "32 word \<Rightarrow> mavlink_channel_t \<Rightarrow> grid_cache \<Rightarrow> 'e terrain \<Rightarrow> bool \<times> 'f out_msg list \<times> 'e terrain" where
  "request_missing now chan gcache t =
     (if state gcache = GRID_CACHE_DISKWAIT then (False, [], t)
      else if bitmap (grid gcache) AND bitmap_mask = bitmap_mask then (False, [], t)
      else
        (True,
         [TERRAIN_REQUEST chan (lat (grid gcache)) (lon (grid gcache)) (grid_spacing t)
            (bitmap_mask AND NOT (bitmap (grid gcache)))],
         t\<lparr>last_request_time_ms := now\<rparr>))"

text \<open>
  \<open>request_missing(chan, info)\<close> needs the collaborators of the class, which live outside
  TerrainGCS.cpp and are taken as parameters:
  \<^item> \<open>TERRAIN_DEBUG\<close>, the compile-time switch of debug builds;
  \<^item> \<open>update\<close> and \<open>schedule_disk_io\<close>, the housekeeping hooks of the tile cache;
  \<^item> \<open>millis_pacing\<close> and \<open>millis_issue\<close>, what \<open>hal.scheduler->millis()\<close> returns at
    the pacing test of \<open>send_request\<close> and at the issuance in \<open>request_missing\<close>;
  \<^item> \<open>get_position\<close>, the answer of \<open>ahrs.get_position\<close> (\<open>None\<close> when it returns false);
  \<^item> \<open>calculate_grid_info\<close>, \<open>location_offset\<close>, \<open>find_grid\<close> (the entry it returns a
    reference to, and the object afterwards), \<open>height_amsl\<close> (its flag and the float it
    leaves in \<open>height\<close>);
  \<^item> \<open>comm_get_txspace\<close> and \<open>report_len\<close>, the value of
    \<open>MAVLINK_NUM_NON_PAYLOAD_BYTES + MAVLINK_MSG_ID_TERRAIN_REPORT_LEN\<close>;
  \<^item> single-precision arithmetic: conversion from \<open>int\<close>, multiplication and the
    literal \<open>0.7f\<close>.
\<close>

record ('e, 'info, 'f) env =
  TERRAIN_DEBUG :: bool
  update :: "'e terrain \<Rightarrow> 'e terrain"
  schedule_disk_io :: "'e terrain \<Rightarrow> 'e terrain"
  millis_pacing :: "32 word"
  millis_issue :: "32 word"
  get_position :: "Location option"
  calculate_grid_info :: "'e terrain \<Rightarrow> Location \<Rightarrow> 'info"
  location_offset :: "Location \<Rightarrow> 'f \<Rightarrow> 'f \<Rightarrow> Location"
  find_grid :: "'info \<Rightarrow> 'e terrain \<Rightarrow> grid_cache \<times> 'e terrain"
  height_amsl :: "Location \<Rightarrow> 'f \<Rightarrow> 'e terrain \<Rightarrow> (bool \<times> 'f) \<times> 'e terrain"
  comm_get_txspace :: "mavlink_channel_t \<Rightarrow> nat"
  report_len :: nat
  float_of_int :: "int \<Rightarrow> 'f"
  float_mul :: "'f \<Rightarrow> 'f \<Rightarrow> 'f"
  float_0_7 :: 'f

definition request_missing_info ::
  "('e, 'info, 'f) env \<Rightarrow> mavlink_channel_t \<Rightarrow> 'info \<Rightarrow> 'e terrain \<Rightarrow> bool \<times> 'f out_msg list \<times> 'e terrain" where
  "request_missing_info env chan info t =
     (case find_grid env info t of (gcache, t') \<Rightarrow> request_missing (millis_issue env) chan gcache t')"

subsection \<open>send\_terrain\_report and handle\_terrain\_check\<close>

definition send_terrain_report ::
  "('e, 'info, 'f) env \<Rightarrow> mavlink_channel_t \<Rightarrow> Location \<Rightarrow> 'e terrain \<Rightarrow> 'f out_msg list \<times> 'e terrain" where
  "send_terrain_report env chan loc t =
     (case height_amsl env loc (float_of_int env 0) t of
        ((ok, hgt), t') \<Rightarrow>
          let spc = (if ok then grid_spacing t' else 0) in
          case get_statistics t' of
            (pending, loaded) \<Rightarrow>
              (if comm_get_txspace env chan \<ge> report_len env
               then [TERRAIN_REPORT chan (loc_lat loc) (loc_lng loc) spc hgt pending loaded]
               else [],
               t'))"

definition handle_terrain_check ::
  "('e, 'info, 'f) env \<Rightarrow> mavlink_channel_t \<Rightarrow> mavlink_terrain_check_t \<Rightarrow> 'e terrain \<Rightarrow> 'f out_msg list \<times> 'e terrain" where
  "handle_terrain_check env chan packet t =
     send_terrain_report env chan \<lparr>loc_lat = chk_lat packet, loc_lng = chk_lon packet\<rparr> t"

subsection \<open>send\_request\<close>

text \<open>
  The argument \<open>x*TERRAIN_GRID_BLOCK_SIZE_X*0.7f*grid_spacing\<close> of \<open>location_offset\<close>: the
  product of the two integers, converted to float, times \<open>0.7f\<close>, times the spacing.
\<close>

definition fan_offset :: "('e, 'info, 'f) env \<Rightarrow> 'e terrain \<Rightarrow> int \<Rightarrow> nat \<Rightarrow> 'f" where
  "fan_offset env t x block_size =
     float_mul env (float_mul env (float_of_int env (x * int block_size)) (float_0_7 env))
       (float_of_int env (sint (grid_spacing t)))"

text \<open>
  The inner loop \<open>for (int8_t y=-1; y<=1; y++)\<close> and the outer loop over \<open>x\<close>. Each
  returns whether a request was issued, the messages sent so far and the object.
\<close>

function fan_out_y ::
  "('e, 'info, 'f) env \<Rightarrow> mavlink_channel_t \<Rightarrow> Location \<Rightarrow> int \<Rightarrow> int \<Rightarrow> 'e terrain
     \<Rightarrow> bool \<times> 'f out_msg list \<times> 'e terrain" where
  "fan_out_y env chan loc x y t =
     (if y \<le> 1 then
        let loc2 = location_offset env loc
                     (fan_offset env t x TERRAIN_GRID_BLOCK_SIZE_X)
                     (fan_offset env t y TERRAIN_GRID_BLOCK_SIZE_Y);
            info2 = calculate_grid_info env t loc2
        in case request_missing_info env chan info2 t of
             (sent, out, t') \<Rightarrow>
               if sent then (True, out, t')
               else (case fan_out_y env chan loc x (y + 1) t' of
                       (sent', out', t'') \<Rightarrow> (sent', out @ out', t''))
      else (False, [], t))"
  by pat_completeness auto
termination
  by (relation "measure (\<lambda>(env, chan, loc, x, y, t). nat (2 - y))") auto

declare fan_out_y.simps [simp del]

function fan_out_x ::
  "('e, 'info, 'f) env \<Rightarrow> mavlink_channel_t \<Rightarrow> Location \<Rightarrow> int \<Rightarrow> 'e terrain
     \<Rightarrow> bool \<times> 'f out_msg list \<times> 'e terrain" where
  "fan_out_x env chan loc x t =
     (if x \<le> 1 then
        case fan_out_y env chan loc x (- 1) t of
          (sent, out, t') \<Rightarrow>
            if sent then (True, out, t')
            else (case fan_out_x env chan loc (x + 1) t' of
                    (sent', out', t'') \<Rightarrow> (sent', out @ out', t''))
      else (False, [], t))"
  by pat_completeness auto
termination
  by (relation "measure (\<lambda>(env, chan, loc, x, t). nat (2 - x))") auto

declare fan_out_x.simps [simp del]

text \<open>
  The loop over the cache table, \<open>n\<close> being \<open>TERRAIN_GRID_BLOCK_CACHE_SIZE\<close>, the
  number of entries of the table.
\<close>

function check_cache_blocks ::
  "('e, 'info, 'f) env \<Rightarrow> mavlink_channel_t \<Rightarrow> nat \<Rightarrow> nat \<Rightarrow> 'e terrain
     \<Rightarrow> bool \<times> 'f out_msg list \<times> 'e terrain" where
  "check_cache_blocks env chan n i t =
     (if i < n then
        (if state_ord (state (cache t ! i)) \<ge> state_ord GRID_CACHE_VALID then
           case request_missing (millis_issue env) chan (cache t ! i) t of
             (sent, out, t') \<Rightarrow>
               if sent then (True, out, t')
               else (case check_cache_blocks env chan n (Suc i) t' of
                       (sent', out', t'') \<Rightarrow> (sent', out @ out', t''))
         else check_cache_blocks env chan n (Suc i) t)
      else (False, [], t))"
  by pat_completeness auto
termination
  by (relation "measure (\<lambda>(env, chan, n, i, t). n - i)") auto

declare check_cache_blocks.simps [simp del]

definition send_request ::
  "('e, 'info, 'f) env \<Rightarrow> mavlink_channel_t \<Rightarrow> 'e terrain \<Rightarrow> 'f out_msg list \<times> 'e terrain" where
  "send_request env chan t =
     (if enable t = 0 then ([], t)
      else
        let t1 = schedule_disk_io env t in
        if millis_pacing env - last_request_time_ms t1 < 2000 then ([], t1)
        else
          case get_position env of
            None \<Rightarrow> ([], t1)
          | Some loc \<Rightarrow>
              let info = calculate_grid_info env t1 loc in
              case request_missing_info env chan info t1 of
                (sent2, out2, t2) \<Rightarrow>
                  if sent2 then (out2, t2)
                  else
                    case fan_out_x env chan loc (- 1) t2 of
                      (sent3, out3, t3) \<Rightarrow>
                        if sent3 then (out2 @ out3, t3)
                        else
                          case check_cache_blocks env chan (length (cache t3)) 0 t3 of
                            (sent4, out4, t4) \<Rightarrow>
                              if sent4 then (out2 @ out3 @ out4, t4)
                              else
                                case request_missing_info env chan info t4 of
                                  (sent5, out5, t5) \<Rightarrow>
                                    if sent5 then (out2 @ out3 @ out4 @ out5, t5)
                                    else
                                      case send_terrain_report env chan loc t5 of
                                        (out6, t6) \<Rightarrow>
                                          (out2 @ out3 @ out4 @ out5 @ out6, t6))"

subsection \<open>handle\_terrain\_data\<close>

text \<open>
  Modelled from the spec: \<open>ASSERT_RANGE\<close> is a macro of AP\_Terrain.h; the spec describes it
  as a debug-only assertion with no effect in a release build.
\<close>

definition ASSERT_RANGE :: "bool \<Rightarrow> int \<Rightarrow> int \<Rightarrow> int \<Rightarrow> fault + unit" where
  "ASSERT_RANGE dbg v minv maxv =
     (if dbg \<and> \<not> (v \<le> maxv \<and> v \<ge> minv) then Inl AssertFailed else Inr ())"

text \<open>The scan of the cache table for the entry the packet addresses.\<close>

function find_packet_grid :: "mavlink_terrain_data_t \<Rightarrow> grid_cache list \<Rightarrow> nat \<Rightarrow> nat" where
  "find_packet_grid packet cs i =
     (if i < length cs then
        (if lat (grid (cs ! i)) = pkt_lat packet \<and>
            lon (grid (cs ! i)) = pkt_lon packet \<and>
            spacing (grid (cs ! i)) = pkt_grid_spacing packet \<and>
            gridbit packet < 56
         then i
         else find_packet_grid packet cs (Suc i))
      else i)"
  by pat_completeness auto
termination
  by (relation "measure (\<lambda>(packet, cs, i). length cs - i)") auto

declare find_packet_grid.simps [simp del]

text \<open>
  An access to \<open>packet.data[k]\<close> or \<open>grid.height[i][j]\<close> outside the array is undefined in
  C++; the model stops there with \<open>OutOfBounds\<close>.
\<close>

definition data_at :: "mavlink_terrain_data_t \<Rightarrow> nat \<Rightarrow> fault + 16 word" where
  "data_at packet k = (if k < length (data packet) then Inr (data packet ! k) else Inl OutOfBounds)"

definition height_store :: "16 word list list \<Rightarrow> nat \<Rightarrow> nat \<Rightarrow> 16 word \<Rightarrow> fault + 16 word list list" where
  "height_store h i j v =
     (if i < length h \<and> j < length (h ! i) then Inr (h[i := (h ! i)[j := v]]) else Inl OutOfBounds)"

text \<open>The loops over \<open>y\<close> and over \<open>x\<close> that copy the 4x4 samples into the matrix.\<close>

function copy_y ::
  "bool \<Rightarrow> mavlink_terrain_data_t \<Rightarrow> 8 word \<Rightarrow> 8 word \<Rightarrow> nat \<Rightarrow> nat \<Rightarrow> 16 word list list
     \<Rightarrow> fault + 16 word list list" where
  "copy_y dbg packet idx_x idx_y x y h =
     (if y < TERRAIN_GRID_MAVLINK_SIZE then
        case data_at packet (x * TERRAIN_GRID_MAVLINK_SIZE + y) of
          Inl e \<Rightarrow> Inl e
        | Inr v \<Rightarrow>
            (case height_store h (unat idx_x + x) (unat idx_y + y) v of
               Inl e \<Rightarrow> Inl e
             | Inr h' \<Rightarrow>
                 (case ASSERT_RANGE dbg (sint (h' ! (unat idx_x + x) ! (unat idx_y + y))) 1 20000 of
                    Inl e \<Rightarrow> Inl e
                  | Inr u \<Rightarrow> copy_y dbg packet idx_x idx_y x (Suc y) h'))
      else Inr h)"
  by pat_completeness auto
termination
  by (relation "measure (\<lambda>(dbg, packet, idx_x, idx_y, x, y, h). TERRAIN_GRID_MAVLINK_SIZE - y)") auto

declare copy_y.simps [simp del]

function copy_x ::
  "bool \<Rightarrow> mavlink_terrain_data_t \<Rightarrow> 8 word \<Rightarrow> 8 word \<Rightarrow> nat \<Rightarrow> 16 word list list
     \<Rightarrow> fault + 16 word list list" where
  "copy_x dbg packet idx_x idx_y x h =
     (if x < TERRAIN_GRID_MAVLINK_SIZE then
        case copy_y dbg packet idx_x idx_y x 0 h of
          Inl e \<Rightarrow> Inl e
        | Inr h' \<Rightarrow> copy_x dbg packet idx_x idx_y (Suc x) h'
      else Inr h)"
  by pat_completeness auto
termination
  by (relation "measure (\<lambda>(dbg, packet, idx_x, idx_y, x, h). TERRAIN_GRID_MAVLINK_SIZE - x)") auto

declare copy_x.simps [simp del]

text \<open>
  The cell offsets of the chunk: \<open>uint8_t idx_x = (packet.gridbit / TERRAIN_GRID_BLOCK_MUL_Y) *
  TERRAIN_GRID_MAVLINK_SIZE\<close> and \<open>idx_y\<close> with the remainder; the \<open>int\<close> result is cut
  to 8 bits.
\<close>

definition idx_x :: "mavlink_terrain_data_t \<Rightarrow> 8 word" where
  "idx_x packet = (gridbit packet div of_nat TERRAIN_GRID_BLOCK_MUL_Y) * of_nat TERRAIN_GRID_MAVLINK_SIZE"

definition idx_y :: "mavlink_terrain_data_t \<Rightarrow> 8 word" where
  "idx_y packet = (gridbit packet mod of_nat TERRAIN_GRID_BLOCK_MUL_Y) * of_nat TERRAIN_GRID_MAVLINK_SIZE"

text \<open>
  \<open>handle_terrain_data\<close> up to the statement that marks the entry dirty: \<open>None\<close> when the
  packet is ignored by the early return, otherwise the object as it is when \<open>update()\<close> is
  called.
\<close>

definition apply_terrain_data ::
  "bool \<Rightarrow> mavlink_terrain_data_t \<Rightarrow> 'e terrain \<Rightarrow> fault + 'e terrain option" where
  "apply_terrain_data dbg packet t =
     (let i = find_packet_grid packet (cache t) 0 in
      if i = length (cache t) then Inr None
      else
        let gcache = cache t ! i in
          case ASSERT_RANGE dbg (uint (idx_x packet)) 0
                 (int ((TERRAIN_GRID_BLOCK_MUL_X - 1) * TERRAIN_GRID_MAVLINK_SIZE)) of
            Inl e \<Rightarrow> Inl e
          | Inr u \<Rightarrow>
              (case ASSERT_RANGE dbg (uint (idx_y packet)) 0
                      (int ((TERRAIN_GRID_BLOCK_MUL_Y - 1) * TERRAIN_GRID_MAVLINK_SIZE)) of
                 Inl e \<Rightarrow> Inl e
               | Inr u \<Rightarrow>
                   (case copy_x dbg packet (idx_x packet) (idx_y packet) 0 (height (grid gcache)) of
                      Inl e \<Rightarrow> Inl e
                    | Inr h' \<Rightarrow>
                        Inr (Some (t\<lparr>cache := (cache t)
                          [i := gcache
                             \<lparr>grid := (grid gcache)
                                \<lparr>bitmap := bitmap (grid gcache) OR push_bit (unat (gridbit packet)) 1,
                                 height := h'\<rparr>,
                              state := GRID_CACHE_DIRTY\<rparr>]\<rparr>)))))"

definition handle_terrain_data ::
  "('e, 'info, 'f) env \<Rightarrow> mavlink_terrain_data_t \<Rightarrow> 'e terrain \<Rightarrow> fault + 'e terrain" where
  "handle_terrain_data env packet t =
     (case apply_terrain_data (TERRAIN_DEBUG env) packet t of
        Inl e \<Rightarrow> Inl e
      | Inr None \<Rightarrow> Inr t
      | Inr (Some t') \<Rightarrow> Inr (update env t'))"

subsection \<open>handle\_data\<close>

definition handle_data ::
  "('e, 'info, 'f) env \<Rightarrow> mavlink_channel_t \<Rightarrow> mavlink_message_t \<Rightarrow> 'e terrain
     \<Rightarrow> fault + 'f out_msg list \<times> 'e terrain" where
  "handle_data env chan msg t =
     (case msg of
        MSG_TERRAIN_DATA packet \<Rightarrow>
          (case handle_terrain_data env packet t of Inl e \<Rightarrow> Inl e | Inr t' \<Rightarrow> Inr ([], t'))
      | MSG_TERRAIN_CHECK packet \<Rightarrow> Inr (handle_terrain_check env chan packet t)
      | MSG_OTHER other \<Rightarrow> Inr ([], t))"

subsection \<open>The statistics as the specification words them\<close>

text \<open>
  What one cache entry adds to \<open>pending\<close> and to \<open>loaded\<close> according to the
  specification; the number of set bits is the number of positions that hold a one.
\<close>

definition pending_share :: "grid_cache \<Rightarrow> 16 word" where
  "pending_share c =
     (case state c of
        GRID_CACHE_INVALID \<Rightarrow> 0
      | GRID_CACHE_DISKWAIT \<Rightarrow> 56
      | GRID_CACHE_VALID \<Rightarrow> 56 - of_nat (card {n. bit (bitmap (grid c)) n})
      | GRID_CACHE_DIRTY \<Rightarrow> 56 - of_nat (card {n. bit (bitmap (grid c)) n}))"

definition loaded_share :: "grid_cache \<Rightarrow> 16 word" where
  "loaded_share c =
     (case state c of
        GRID_CACHE_INVALID \<Rightarrow> 0
      | GRID_CACHE_DISKWAIT \<Rightarrow> 0
      | GRID_CACHE_VALID \<Rightarrow> of_nat (card {n. bit (bitmap (grid c)) n})
      | GRID_CACHE_DIRTY \<Rightarrow> of_nat (card {n. bit (bitmap (grid c)) n}))"

subsection \<open>Well-formed tables and packets, runs of deliveries\<close>

text \<open>
  The matrix of every cache entry is \<open>int16_t height[28][32]\<close>, and a decoded packet holds
  \<open>int16_t data[16]\<close>.
\<close>

definition wf_block :: "grid_block \<Rightarrow> bool" where
  "wf_block g \<longleftrightarrow>
     length (height g) = TERRAIN_GRID_BLOCK_SIZE_X \<and>
     list_all (\<lambda>row. length row = TERRAIN_GRID_BLOCK_SIZE_Y) (height g)"

definition wf_cache :: "grid_cache list \<Rightarrow> bool" where
  "wf_cache cs \<longleftrightarrow> list_all (\<lambda>c. wf_block (grid c)) cs"

definition wf_packet :: "mavlink_terrain_data_t \<Rightarrow> bool" where
  "wf_packet packet \<longleftrightarrow>
     length (data packet) = TERRAIN_GRID_MAVLINK_SIZE * TERRAIN_GRID_MAVLINK_SIZE"

text \<open>The samples of a packet that the assertion of a debug build accepts.\<close>

definition samples_in_range :: "mavlink_terrain_data_t \<Rightarrow> bool" where
  "samples_in_range packet \<longleftrightarrow> list_all (\<lambda>v. 1 \<le> sint v \<and> sint v \<le> 20000) (data packet)"

text \<open>The packet names the address of the entry.\<close>

definition addresses :: "mavlink_terrain_data_t \<Rightarrow> grid_cache \<Rightarrow> bool" where
  "addresses packet c \<longleftrightarrow>
     lat (grid c) = pkt_lat packet \<and> lon (grid c) = pkt_lon packet \<and>
     spacing (grid c) = pkt_grid_spacing packet"

text \<open>A run of TERRAIN\_DATA messages handled one after the other.\<close>

fun handle_terrain_data_list ::
  "('e, 'info, 'f) env \<Rightarrow> mavlink_terrain_data_t list \<Rightarrow> 'e terrain \<Rightarrow> fault + 'e terrain" where
  "handle_terrain_data_list env [] t = Inr t"
| "handle_terrain_data_list env (packet # rest) t =
     (case handle_terrain_data env packet t of
        Inl e \<Rightarrow> Inl e
      | Inr t' \<Rightarrow> handle_terrain_data_list env rest t')"

subsection \<open>Closed forms used in the proofs\<close>

text \<open>
  What the two copy loops leave in a row and in the matrix: the four cells from column
  \<open>j\<close> of a row, and the four rows from row \<open>i\<close>.
\<close>

definition row_written :: "16 word list \<Rightarrow> nat \<Rightarrow> 16 word list \<Rightarrow> nat \<Rightarrow> 16 word list" where
  "row_written r j d k =
     r[j := d ! k, Suc j := d ! Suc k, Suc (Suc j) := d ! Suc (Suc k),
       Suc (Suc (Suc j)) := d ! Suc (Suc (Suc k))]"

definition block_written :: "16 word list list \<Rightarrow> nat \<Rightarrow> nat \<Rightarrow> 16 word list \<Rightarrow> 16 word list list" where
  "block_written h i j d =
     h[i := row_written (h ! i) j d 0,
       Suc i := row_written (h ! Suc i) j d 4,
       Suc (Suc i) := row_written (h ! Suc (Suc i)) j d 8,
       Suc (Suc (Suc i)) := row_written (h ! Suc (Suc (Suc i))) j d 12]"

text \<open>The cache entry after one accepted packet.\<close>

definition chunk_stored :: "mavlink_terrain_data_t \<Rightarrow> grid_cache \<Rightarrow> grid_cache" where
  "chunk_stored p c =
     c\<lparr>grid := (grid c)
          \<lparr>bitmap := bitmap (grid c) OR push_bit (unat (gridbit p)) 1,
           height := block_written (height (grid c)) (unat (idx_x p)) (unat (idx_y p)) (data p)\<rparr>,
       state := GRID_CACHE_DIRTY\<rparr>"

text \<open>
  A housekeeping hook \<open>update\<close> that leaves the \<open>grid\<close> member of every cache entry as
  it is (it may change states and its own bookkeeping).
\<close>

definition keeps_grids :: "('e, 'info, 'f) env \<Rightarrow> bool" where
  "keeps_grids env \<longleftrightarrow> (\<forall>s. map grid (cache (update env s)) = map grid (cache s))"

subsection \<open>The fan-out as the specification words it\<close>

text \<open>
  \<open>request_missing\<close> is attempted for the tiles at the given offsets around the position,
  in the order of the list, stopping at the first issuance.
\<close>

fun attempt_offsets ::
  "('e, 'info, 'f) env \<Rightarrow> mavlink_channel_t \<Rightarrow> Location \<Rightarrow> (int \<times> int) list \<Rightarrow> 'e terrain
     \<Rightarrow> bool \<times> 'f out_msg list \<times> 'e terrain" where
  "attempt_offsets env chan loc [] t = (False, [], t)"
| "attempt_offsets env chan loc (xy # rest) t =
     (let loc2 = location_offset env loc
                   (fan_offset env t (fst xy) TERRAIN_GRID_BLOCK_SIZE_X)
                   (fan_offset env t (snd xy) TERRAIN_GRID_BLOCK_SIZE_Y);
          info2 = calculate_grid_info env t loc2
      in case request_missing_info env chan info2 t of
           (sent, out, t') \<Rightarrow>
             if sent then (True, out, t')
             else (case attempt_offsets env chan loc rest t' of
                     (sent', out', t'') \<Rightarrow> (sent', out @ out', t'')))"

definition nine_offsets :: "(int \<times> int) list" where
  "nine_offsets = [(-1, -1), (-1, 0), (-1, 1), (0, -1), (0, 0), (0, 1), (1, -1), (1, 0), (1, 1)]"

definition eight_neighbours :: "(int \<times> int) list" where
  "eight_neighbours = [(-1, -1), (-1, 0), (-1, 1), (0, -1), (0, 1), (1, -1), (1, 0), (1, 1)]"

text \<open>
  The result of an attempt: either a request was issued, then exactly one message was
  sent, it is a request, and the time of issuance is recorded; or nothing was sent.
\<close>

definition issues :: "32 word \<Rightarrow> bool \<times> 'f out_msg list \<times> 'e terrain \<Rightarrow> bool" where
  "issues now r \<longleftrightarrow>
     (case r of (sent, out, t') \<Rightarrow>
        if sent then length out = 1 \<and> list_all is_request out \<and> last_request_time_ms t' = now
        else out = [])"

subsection \<open>Example inputs\<close>

text \<open>
  Collaborators for the examples: \<open>find_grid\<close> hands out an empty tile in the given
  state for the address asked for and logs the address in \<open>collab\<close>; floats are
  rationals; offsets move latitude and longitude by whole units.
\<close>

definition example_env :: "GridCacheState \<Rightarrow> 32 word \<Rightarrow> 32 word \<Rightarrow> (Location list, Location, rat) env" where
  "example_env st now_pacing now_issue =
     \<lparr>TERRAIN_DEBUG = False,
      update = (\<lambda>s. s),
      schedule_disk_io = (\<lambda>s. s),
      millis_pacing = now_pacing,
      millis_issue = now_issue,
      get_position = Some \<lparr>loc_lat = 100000, loc_lng = 200000\<rparr>,
      calculate_grid_info = (\<lambda>s loc. loc),
      location_offset = (\<lambda>loc n e. \<lparr>loc_lat = loc_lat loc + of_int \<lfloor>n\<rfloor>, loc_lng = loc_lng loc + of_int \<lfloor>e\<rfloor>\<rparr>),
      find_grid = (\<lambda>info s.
        (\<lparr>grid = \<lparr>bitmap = 0, lat = loc_lat info, lon = loc_lng info, spacing = grid_spacing s,
                  height = replicate 28 (replicate 32 0)\<rparr>,
          state = st\<rparr>,
         s\<lparr>collab := collab s @ [info]\<rparr>)),
      height_amsl = (\<lambda>loc h s. ((False, h), s)),
      comm_get_txspace = (\<lambda>c. 100),
      report_len = 30,
      float_of_int = of_int,
      float_mul = (\<lambda>a b. a * b),
      float_0_7 = 7 / 10\<rparr>"

definition example_tile :: "GridCacheState \<Rightarrow> 64 word \<Rightarrow> grid_cache" where
  "example_tile st b =
     \<lparr>grid = \<lparr>bitmap = b, lat = 10, lon = 20, spacing = 100, height = replicate 28 (replicate 32 0)\<rparr>,
      state = st\<rparr>"

definition example_terrain :: "8 word \<Rightarrow> grid_cache list \<Rightarrow> Location list terrain" where
  "example_terrain en cs =
     \<lparr>enable = en, grid_spacing = 100, last_request_time_ms = 0, cache = cs, collab = []\<rparr>"

definition example_packet :: "8 word \<Rightarrow> 16 word list \<Rightarrow> mavlink_terrain_data_t" where
  "example_packet g d = \<lparr>pkt_lat = 10, pkt_lon = 20, pkt_grid_spacing = 100, gridbit = g, data = d\<rparr>"

text \<open>
  The table of a library that was never enabled: entries as zero-initialised at start-up,
  and a packet that names the all-zero address.
\<close>

definition unset_tile :: grid_cache where
  "unset_tile =
     \<lparr>grid = \<lparr>bitmap = 0, lat = 0, lon = 0, spacing = 0, height = replicate 28 (replicate 32 0)\<rparr>,
      state = GRID_CACHE_INVALID\<rparr>"

definition disabled_terrain :: "Location list terrain" where
  "disabled_terrain =
     \<lparr>enable = 0, grid_spacing = 100, last_request_time_ms = 0, cache = [unset_tile, unset_tile],
      collab = []\<rparr>"

definition zero_packet :: mavlink_terrain_data_t where
  "zero_packet = \<lparr>pkt_lat = 0, pkt_lon = 0, pkt_grid_spacing = 0, gridbit = 0, data = replicate 16 500\<rparr>"

section \<open>Properties\<close>

subsection \<open>Counting bits\<close>

lemma builtin_popcount_card: "builtin_popcount x = card {n. bit x n}"
proof -
  have "{n. bit x n} = set (filter (bit x) [0..<32])"
    by (auto dest: bit_imp_le_length)
  moreover have "distinct (filter (bit x) [0..<32])" by simp
  ultimately show ?thesis
    unfolding builtin_popcount_def by (metis distinct_card)
qed

lemma low_half_bits: "bit (ucast (b AND 0xFFFFFFFF :: 64 word) :: 32 word) n \<longleftrightarrow> n < 32 \<and> bit b n"
proof -
  have m: "(0xFFFFFFFF :: 64 word) = mask 32" by (simp add: mask_eq_exp_minus_1)
  show ?thesis unfolding m by (auto simp: bit_ucast_iff bit_and_iff bit_mask_iff)
qed

lemma high_half_bits: "bit (ucast (drop_bit 32 (b :: 64 word)) :: 32 word) n \<longleftrightarrow> n < 32 \<and> bit b (32 + n)"
  by (auto simp: bit_ucast_iff bit_drop_bit_eq)

lemma builtin_popcount_le: "builtin_popcount x \<le> 32"
proof -
  have "length (filter (bit x) [0..<32]) \<le> length [0..<32]" by (rule length_filter_le)
  then show ?thesis by (simp add: builtin_popcount_def)
qed

lemma card_bits_split:
  "card {n. bit (b :: 64 word) n} = card {n. n < 32 \<and> bit b n} + card {n. n < 32 \<and> bit b (32 + n)}"
proof -
  let ?L = "{n. n < 32 \<and> bit b n}" and ?H = "{n. n < 32 \<and> bit b (32 + n)}"
  have fin: "finite ?L" "finite ?H" by simp_all
  have img: "{n. 32 \<le> n \<and> bit b n} = (+) 32 ` ?H"
  proof (rule set_eqI)
    fix n show "n \<in> {n. 32 \<le> n \<and> bit b n} \<longleftrightarrow> n \<in> (+) 32 ` ?H"
    proof
      assume "n \<in> {n. 32 \<le> n \<and> bit b n}"
      then have a: "32 \<le> n" "bit b n" by simp_all
      from a(2) have "n < 64" by (auto dest: bit_imp_le_length)
      with a have "n - 32 \<in> ?H" by simp
      moreover have "n = 32 + (n - 32)" using a by simp
      ultimately show "n \<in> (+) 32 ` ?H" by (rule image_eqI[rotated])
    next
      assume "n \<in> (+) 32 ` ?H" then show "n \<in> {n. 32 \<le> n \<and> bit b n}" by auto
    qed
  qed
  have un: "{n. bit b n} = ?L \<union> {n. 32 \<le> n \<and> bit b n}" by auto
  have dj: "?L \<inter> {n. 32 \<le> n \<and> bit b n} = {}" by auto
  have fin2: "finite {n. 32 \<le> n \<and> bit b n}" unfolding img using fin by simp
  have "card (?L \<union> {n. 32 \<le> n \<and> bit b n}) = card ?L + card {n. 32 \<le> n \<and> bit b n}"
    by (rule card_Un_disjoint[OF fin(1) fin2 dj])
  then have "card {n. bit b n} = card ?L + card {n. 32 \<le> n \<and> bit b n}"
    by (simp only: un[symmetric])
  also have "card {n. 32 \<le> n \<and> bit b n} = card ?H"
    unfolding img by (rule card_image) simp
  finally show ?thesis .
qed

lemma bitcount64_nat: "unat (bitcount64 b) = builtin_popcount (ucast (b AND 0xFFFFFFFF)) + builtin_popcount (ucast (drop_bit 32 b))"
proof -
  have "builtin_popcount (ucast (b AND 0xFFFFFFFF)) + builtin_popcount (ucast (drop_bit 32 b)) \<le> 64"
    using builtin_popcount_le[of "ucast (b AND 0xFFFFFFFF)"] builtin_popcount_le[of "ucast (drop_bit 32 b)"] by simp
  then have "unat (of_nat (builtin_popcount (ucast (b AND 0xFFFFFFFF)) + builtin_popcount (ucast (drop_bit 32 b))) :: 8 word)
     = builtin_popcount (ucast (b AND 0xFFFFFFFF)) + builtin_popcount (ucast (drop_bit 32 b))"
    by (simp add: unat_of_nat del: of_nat_add)
  then show ?thesis by (simp only: bitcount64_def)
qed

lemma bitcount64_card: "unat (bitcount64 b) = card {n. bit b n}"
  by (simp only: bitcount64_nat builtin_popcount_card low_half_bits high_half_bits card_bits_split)

text \<open>
  C9: for every 64-bit value, \<open>bitcount64\<close> returns the number of set bits of the whole
  word: the popcounts of the low and of the high 32-bit half add up to the number of
  positions at which the word has a one.
\<close>

theorem bitcount64_counts_set_bits:
  "unat (bitcount64 b) = card {n. bit b n}
   \<and> builtin_popcount (ucast (b AND 0xFFFFFFFF)) + builtin_popcount (ucast (drop_bit 32 b))
       = card {n. bit b n}"
  using bitcount64_card [of b] bitcount64_nat [of b] by simp

subsection \<open>request\_missing\<close>

text \<open>
  C5 (as amended): \<open>request_missing\<close> returns false, sends nothing and changes nothing
  exactly when the entry is in DiskWait or its bitmap covers the full mask; otherwise it
  sends one TERRAIN\_REQUEST with the entry's latitude and longitude, the configured
  \<open>grid_spacing\<close> of the library and the mask of the missing chunks, stores the current
  time in \<open>last_request_time_ms\<close> and returns true. An entry whose bitmap is the full
  mask always gets false.
\<close>

theorem request_missing_outcome:
  "(fst (request_missing now chan gcache t :: bool \<times> 'f out_msg list \<times> 'e terrain) = False \<longleftrightarrow>
      state gcache = GRID_CACHE_DISKWAIT \<or> bitmap (grid gcache) AND bitmap_mask = bitmap_mask)
   \<and> (request_missing now chan gcache t :: bool \<times> 'f out_msg list \<times> 'e terrain) =
       (if state gcache = GRID_CACHE_DISKWAIT \<or> bitmap (grid gcache) AND bitmap_mask = bitmap_mask
        then (False, [], t)
        else (True,
              [TERRAIN_REQUEST chan (lat (grid gcache)) (lon (grid gcache)) (grid_spacing t)
                 (bitmap_mask AND NOT (bitmap (grid gcache)))],
              t\<lparr>last_request_time_ms := now\<rparr>))
   \<and> (request_missing now chan (gcache\<lparr>grid := (grid gcache)\<lparr>bitmap := bitmap_mask\<rparr>\<rparr>) t
         :: bool \<times> 'f out_msg list \<times> 'e terrain) = (False, [], t)"
  by (simp add: request_missing_def)

text \<open>
  The request does not carry the spacing stored in the entry: for an entry of spacing 100
  in a library configured with \<open>grid_spacing = 50\<close> the request names spacing 50.
\<close>

theorem request_missing_spacing_counterexample:
  "request_missing 5000 0
     \<lparr>grid = \<lparr>bitmap = 0, lat = 1, lon = 2, spacing = 100, height = []\<rparr>, state = GRID_CACHE_VALID\<rparr>
     \<lparr>enable = 1, grid_spacing = 50, last_request_time_ms = 0, cache = [], collab = ()\<rparr>
   = (True, [TERRAIN_REQUEST 0 1 2 50 bitmap_mask :: unit out_msg],
      \<lparr>enable = 1, grid_spacing = 50, last_request_time_ms = 5000, cache = [], collab = ()\<rparr>)
   \<and> (50 :: 16 word) \<noteq> spacing \<lparr>bitmap = 0, lat = 1, lon = 2, spacing = 100, height = []\<rparr>"
  by (simp add: request_missing_def bitmap_mask_def TERRAIN_GRID_BLOCK_MUL_X_def TERRAIN_GRID_BLOCK_MUL_Y_def)

subsection \<open>get\_statistics\<close>

lemma ucast_bitcount64: "(word_of_int (uint (bitcount64 b)) :: 16 word) = of_nat (card {n. bit b n})"
  using bitcount64_card [of b] by (metis of_nat_unat of_int_of_nat_eq)

lemma maskbits_56: "uint (of_nat (TERRAIN_GRID_BLOCK_MUL_X * TERRAIN_GRID_BLOCK_MUL_Y) :: 8 word) = 56"
  by (simp add: TERRAIN_GRID_BLOCK_MUL_X_def TERRAIN_GRID_BLOCK_MUL_Y_def)

lemma pending_acc: "(word_of_int (uint (p :: 16 word) + (56 - uint (bc :: 8 word))) :: 16 word) = p + (56 - word_of_int (uint bc))"
  by simp

lemma loaded_acc: "(word_of_int (uint (l :: 16 word) + uint (bc :: 8 word)) :: 16 word) = l + word_of_int (uint bc)"
  by simp

lemma pending_acc_full: "(word_of_int (uint (p :: 16 word) + 56) :: 16 word) = p + 56"
  by simp

lemma get_statistics_loop_step:
  assumes "i < length cs"
  shows "get_statistics_loop cs i (p, l) =
           get_statistics_loop cs (Suc i) (p + pending_share (cs ! i), l + loaded_share (cs ! i))"
proof (cases "state (cs ! i)")
  case GRID_CACHE_INVALID
  with assms show ?thesis
    by (subst get_statistics_loop.simps) (simp add: pending_share_def loaded_share_def)
next
  case GRID_CACHE_DISKWAIT
  with assms show ?thesis
    by (subst get_statistics_loop.simps)
       (simp only: maskbits_56 pending_acc_full pending_share_def loaded_share_def Let_def
          GridCacheState.simps if_True if_False add_0_right; simp)
next
  case GRID_CACHE_VALID
  with assms show ?thesis
    by (subst get_statistics_loop.simps)
       (simp only: maskbits_56 pending_acc loaded_acc ucast_bitcount64 pending_share_def loaded_share_def
          Let_def GridCacheState.simps if_True if_False; simp)
next
  case GRID_CACHE_DIRTY
  with assms show ?thesis
    by (subst get_statistics_loop.simps)
       (simp only: maskbits_56 pending_acc loaded_acc ucast_bitcount64 pending_share_def loaded_share_def
          Let_def GridCacheState.simps if_True if_False; simp)
qed

lemma get_statistics_loop_sum:
  "get_statistics_loop cs i (p, l) =
     (p + sum_list (map pending_share (drop i cs)), l + sum_list (map loaded_share (drop i cs)))"
proof (induction "length cs - i" arbitrary: i p l)
  case 0
  then show ?case by (subst get_statistics_loop.simps) simp
next
  case (Suc k)
  then have lt: "i < length cs" and k: "k = length cs - Suc i" by simp_all
  have d: "drop i cs = cs ! i # drop (Suc i) cs" using lt by (simp add: Cons_nth_drop_Suc)
  show ?case
    by (simp only: get_statistics_loop_step [OF lt] Suc.hyps(1) [OF k] d list.map sum_list.Cons add.assoc)
qed

lemma get_statistics_sum:
  "get_statistics t = (sum_list (map pending_share (cache t)), sum_list (map loaded_share (cache t)))"
  by (simp add: get_statistics_def get_statistics_loop_sum)


text \<open>
  C8: \<open>get_statistics\<close> adds up, over all cache entries, nothing for an Invalid entry,
  56 pending for a DiskWait entry, and for a Valid or Dirty entry the number of set bits
  to loaded and 56 minus that number to pending (in 16-bit arithmetic, as the counters
  are \<open>uint16_t\<close>). A cache of Invalid entries gives (0, 0), a single DiskWait entry
  (56, 0), a single Dirty entry with 10 bits set gives pending 46 and loaded 10.
\<close>

theorem get_statistics_sums:
  "get_statistics t = (sum_list (map pending_share (cache t)), sum_list (map loaded_share (cache t)))
   \<and> ((\<forall>c \<in> set (cache t). state c = GRID_CACHE_INVALID) \<longrightarrow> get_statistics t = (0, 0))
   \<and> (\<forall>c. cache t = [c] \<and> state c = GRID_CACHE_DISKWAIT \<longrightarrow> get_statistics t = (56, 0))
   \<and> (\<forall>c. cache t = [c] \<and> state c = GRID_CACHE_DIRTY \<and> card {n. bit (bitmap (grid c)) n} = 10
          \<longrightarrow> get_statistics t = (46, 10))"
proof -
  have a: "(\<forall>c \<in> set cs. state c = GRID_CACHE_INVALID) \<Longrightarrow>
        sum_list (map pending_share cs) = 0 \<and> sum_list (map loaded_share cs) = 0" for cs
    by (induction cs) (simp_all add: pending_share_def loaded_share_def)
  show ?thesis
    using a [of "cache t"]
    by (auto simp: get_statistics_sum pending_share_def loaded_share_def)
qed

lemma bc1023: "bitcount64 1023 = 10"
  by code_simp

lemma card1023: "card {n. bit (1023 :: 64 word) n} = 10"
  using bitcount64_card [of 1023] by (simp add: bc1023)

theorem get_statistics_sums_witness:
  "get_statistics \<lparr>enable = 1, grid_spacing = 100, last_request_time_ms = 0,
      cache = [\<lparr>grid = \<lparr>bitmap = 1023, lat = 1, lon = 2, spacing = 100, height = []\<rparr>, state = GRID_CACHE_DIRTY\<rparr>],
      collab = ()\<rparr> = (46, 10)
   \<and> get_statistics \<lparr>enable = 1, grid_spacing = 100, last_request_time_ms = 0,
      cache = [\<lparr>grid = \<lparr>bitmap = 5, lat = 1, lon = 2, spacing = 100, height = []\<rparr>, state = GRID_CACHE_INVALID\<rparr>,
               \<lparr>grid = \<lparr>bitmap = 0, lat = 3, lon = 4, spacing = 100, height = []\<rparr>, state = GRID_CACHE_INVALID\<rparr>],
      collab = ()\<rparr> = (0, 0)
   \<and> get_statistics \<lparr>enable = 1, grid_spacing = 100, last_request_time_ms = 0,
      cache = [\<lparr>grid = \<lparr>bitmap = 7, lat = 1, lon = 2, spacing = 100, height = []\<rparr>, state = GRID_CACHE_DISKWAIT\<rparr>],
      collab = ()\<rparr> = (56, 0)"
  using get_statistics_sums [of "\<lparr>enable = 1, grid_spacing = 100, last_request_time_ms = 0,
      cache = [\<lparr>grid = \<lparr>bitmap = 1023, lat = 1, lon = 2, spacing = 100, height = []\<rparr>, state = GRID_CACHE_DIRTY\<rparr>],
      collab = ()\<rparr>", THEN conjunct2]
    get_statistics_sums [of "\<lparr>enable = 1, grid_spacing = 100, last_request_time_ms = 0,
      cache = [\<lparr>grid = \<lparr>bitmap = 5, lat = 1, lon = 2, spacing = 100, height = []\<rparr>, state = GRID_CACHE_INVALID\<rparr>,
               \<lparr>grid = \<lparr>bitmap = 0, lat = 3, lon = 4, spacing = 100, height = []\<rparr>, state = GRID_CACHE_INVALID\<rparr>],
      collab = ()\<rparr>", THEN conjunct2]
    get_statistics_sums [of "\<lparr>enable = 1, grid_spacing = 100, last_request_time_ms = 0,
      cache = [\<lparr>grid = \<lparr>bitmap = 7, lat = 1, lon = 2, spacing = 100, height = []\<rparr>, state = GRID_CACHE_DISKWAIT\<rparr>],
      collab = ()\<rparr>", THEN conjunct2]
  by (simp add: card1023)

subsection \<open>The lookup of handle\_terrain\_data\<close>

lemma find_packet_grid_unfold:
  "find_packet_grid p cs i =
     (if i < length cs then (if addresses p (cs ! i) \<and> gridbit p < 56 then i else find_packet_grid p cs (Suc i)) else i)"
  by (subst find_packet_grid.simps) (simp add: addresses_def)

lemma find_packet_grid_ge: "i \<le> find_packet_grid p cs i"
proof (induction p cs i rule: find_packet_grid.induct)
  case (1 p cs i)
  show ?case
  proof (cases "i < length cs \<and> \<not> (addresses p (cs ! i) \<and> gridbit p < 56)")
    case True
    with 1 have "Suc i \<le> find_packet_grid p cs (Suc i)" by (simp add: addresses_def)
    with True show ?thesis by (subst find_packet_grid_unfold) auto
  next
    case False
    then show ?thesis by (subst find_packet_grid_unfold) auto
  qed
qed

lemma find_packet_grid_le: "i \<le> length cs \<Longrightarrow> find_packet_grid p cs i \<le> length cs"
proof (induction p cs i rule: find_packet_grid.induct)
  case (1 p cs i)
  show ?case
  proof (cases "i < length cs \<and> \<not> (addresses p (cs ! i) \<and> gridbit p < 56)")
    case True
    with 1 have "find_packet_grid p cs (Suc i) \<le> length cs" by (simp add: addresses_def)
    with True show ?thesis by (subst find_packet_grid_unfold) auto
  next
    case False
    with 1(2) show ?thesis by (subst find_packet_grid_unfold) auto
  qed
qed

lemma find_packet_grid_hit:
  "find_packet_grid p cs i < length cs \<Longrightarrow>
     addresses p (cs ! find_packet_grid p cs i) \<and> gridbit p < 56"
proof (induction p cs i rule: find_packet_grid.induct)
  case (1 p cs i)
  show ?case
  proof (cases "i < length cs \<and> \<not> (addresses p (cs ! i) \<and> gridbit p < 56)")
    case True
    then have e: "find_packet_grid p cs i = find_packet_grid p cs (Suc i)"
      by (subst find_packet_grid_unfold) auto
    with 1 True show ?thesis by (simp add: addresses_def)
  next
    case False
    then have e: "find_packet_grid p cs i = i"
      by (subst find_packet_grid_unfold) auto
    with 1(2) False show ?thesis by auto
  qed
qed

lemma find_packet_grid_first:
  "i \<le> j \<Longrightarrow> j < find_packet_grid p cs i \<Longrightarrow> \<not> (addresses p (cs ! j) \<and> gridbit p < 56)"
proof (induction p cs i rule: find_packet_grid.induct)
  case (1 p cs i)
  show ?case
  proof (cases "i < length cs \<and> \<not> (addresses p (cs ! i) \<and> gridbit p < 56)")
    case True
    then have e: "find_packet_grid p cs i = find_packet_grid p cs (Suc i)"
      by (subst find_packet_grid_unfold) auto
    show ?thesis
    proof (cases "j = i")
      case True
      with \<open>i < length cs \<and> \<not> (addresses p (cs ! i) \<and> gridbit p < 56)\<close> show ?thesis by simp
    next
      case False
      with 1(2) have "Suc i \<le> j" by simp
      moreover from 1(3) e have "j < find_packet_grid p cs (Suc i)" by simp
      ultimately show ?thesis using 1(1) True by (simp add: addresses_def)
    qed
  next
    case False
    then have e: "find_packet_grid p cs i = i"
      by (subst find_packet_grid_unfold) auto
    with 1(2,3) show ?thesis by simp
  qed
qed

lemma find_packet_grid_reject:
  "\<not> gridbit p < 56 \<Longrightarrow> find_packet_grid p cs 0 = length cs"
proof -
  assume n: "\<not> gridbit p < 56"
  have "find_packet_grid p cs 0 \<le> length cs" by (rule find_packet_grid_le) simp
  moreover have "\<not> find_packet_grid p cs 0 < length cs"
    using find_packet_grid_hit [of p cs 0] n by blast
  ultimately show ?thesis by simp
qed

lemma find_packet_grid_unique:
  assumes "i \<le> r" "r < length cs" "addresses p (cs ! r)" "gridbit p < 56"
    and "\<forall>j. i \<le> j \<and> j < r \<longrightarrow> \<not> addresses p (cs ! j)"
  shows "find_packet_grid p cs i = r"
proof -
  let ?f = "find_packet_grid p cs i"
  have "\<not> r < ?f" using find_packet_grid_first [of i r p cs] assms by blast
  then have le: "?f \<le> r" by simp
  then have lt: "?f < length cs" using assms(2) by simp
  have "\<not> ?f < r"
    using find_packet_grid_hit [OF lt] find_packet_grid_ge [of i p cs] assms(5) by blast
  with le show ?thesis by simp
qed

subsection \<open>The copy loops\<close>

lemma copy_y_closed:
  assumes i: "i = unat ix + x" "i < length h"
    and j: "unat iy + 4 \<le> length (h ! i)"
    and d: "x * 4 + 4 \<le> length (data p)"
    and a: "\<forall>k < length (data p). dbg \<longrightarrow> 1 \<le> sint (data p ! k) \<and> sint (data p ! k) \<le> 20000"
  shows "copy_y dbg p ix iy x 0 h = Inr (h[i := row_written (h ! i) (unat iy) (data p) (x * 4)])"
proof -
  have r: "dbg \<Longrightarrow> 1 \<le> sint (data p ! k) \<and> sint (data p ! k) \<le> 20000" if "k < x * 4 + 4" for k
    using a d that by simp
  show ?thesis
    using i j d r [of "x * 4"] r [of "Suc (x * 4)"] r [of "Suc (Suc (x * 4))"] r [of "Suc (Suc (Suc (x * 4)))"]
    by (simp add: copy_y.simps data_at_def height_store_def ASSERT_RANGE_def
        TERRAIN_GRID_MAVLINK_SIZE_def row_written_def)
qed

lemma length_row_written: "length (row_written r j d k) = length r"
  by (simp add: row_written_def)

lemma copy_x_closed:
  assumes i: "unat ix + 4 \<le> length h"
    and j: "\<forall>i < length h. unat iy + 4 \<le> length (h ! i)"
    and d: "length (data p) = 16"
    and a: "\<forall>k < length (data p). dbg \<longrightarrow> 1 \<le> sint (data p ! k) \<and> sint (data p ! k) \<le> 20000"
  shows "copy_x dbg p ix iy 0 h = Inr (block_written h (unat ix) (unat iy) (data p))"
proof -
  let ?i = "unat ix" and ?j = "unat iy" and ?d = "data p"
  define h1 where "h1 = h[?i := row_written (h ! ?i) ?j ?d 0]"
  define h2 where "h2 = h1[Suc ?i := row_written (h ! Suc ?i) ?j ?d 4]"
  define h3 where "h3 = h2[Suc (Suc ?i) := row_written (h ! Suc (Suc ?i)) ?j ?d 8]"
  define h4 where "h4 = h3[Suc (Suc (Suc ?i)) := row_written (h ! Suc (Suc (Suc ?i))) ?j ?d 12]"
  have c0: "copy_y dbg p ix iy 0 0 h = Inr h1"
    using copy_y_closed [of "?i" ix 0 h iy p dbg] i j d a by (simp add: h1_def)
  have c1: "copy_y dbg p ix iy (Suc 0) 0 h1 = Inr h2"
    using copy_y_closed [of "Suc ?i" ix "Suc 0" h1 iy p dbg] i j d a by (simp add: h1_def h2_def)
  have c2: "copy_y dbg p ix iy (Suc (Suc 0)) 0 h2 = Inr h3"
    using copy_y_closed [of "Suc (Suc ?i)" ix "Suc (Suc 0)" h2 iy p dbg] i j d a
    by (simp add: h1_def h2_def h3_def)
  have c3: "copy_y dbg p ix iy (Suc (Suc (Suc 0))) 0 h3 = Inr h4"
    using copy_y_closed [of "Suc (Suc (Suc ?i))" ix "Suc (Suc (Suc 0))" h3 iy p dbg] i j d a
    by (simp add: h1_def h2_def h3_def h4_def)
  have "copy_x dbg p ix iy 0 h = Inr h4"
    by (simp add: copy_x.simps c0 c1 c2 c3 TERRAIN_GRID_MAVLINK_SIZE_def)
  then show ?thesis by (simp add: block_written_def h1_def h2_def h3_def h4_def)
qed

subsection \<open>Cell offsets and block writes\<close>

lemma unat_idx_x: "gridbit p < 56 \<Longrightarrow> unat (idx_x p) = (unat (gridbit p) div 8) * 4"
proof -
  assume "gridbit p < 56"
  then have g: "unat (gridbit p) < 56" by (simp add: word_less_nat_alt)
  then have "unat (gridbit p) div 8 * 4 < 256" by simp
  then show ?thesis
    by (simp add: idx_x_def TERRAIN_GRID_BLOCK_MUL_Y_def TERRAIN_GRID_MAVLINK_SIZE_def
        unat_word_ariths unat_div)
qed

lemma unat_idx_y: "unat (idx_y p) = (unat (gridbit p) mod 8) * 4"
proof -
  have "unat (gridbit p) mod 8 < 8" by simp
  then have "unat (gridbit p) mod 8 * 4 < 256" by simp
  then show ?thesis
    by (simp add: idx_y_def TERRAIN_GRID_BLOCK_MUL_Y_def TERRAIN_GRID_MAVLINK_SIZE_def
        unat_word_ariths unat_mod)
qed

lemma idx_x_bound: "gridbit p < 56 \<Longrightarrow> unat (idx_x p) \<le> 24"
proof -
  assume a: "gridbit p < 56"
  then have g: "unat (gridbit p) < 56" by (simp add: word_less_nat_alt)
  then have "unat (gridbit p) div 8 \<le> 6" by simp
  then show ?thesis using unat_idx_x [OF a] by simp
qed

lemma idx_y_bound: "unat (idx_y p) \<le> 28"
proof -
  have "unat (gridbit p) mod 8 \<le> 7" by simp
  then show ?thesis using unat_idx_y [of p] by simp
qed

lemma nth_update_any: "xs[i := x] ! j = (if i = j \<and> i < length xs then x else xs ! j)"
  by (cases "i < length xs") (auto simp: nth_list_update list_update_beyond)

lemma length_block_written: "length (block_written h i j d) = length h"
  by (simp add: block_written_def)

lemma length_block_written_row: "length (block_written h i j d ! a) = length (h ! a)"
  by (simp add: block_written_def nth_update_any length_row_written)

lemma row_written_inside:
  "b < 4 \<Longrightarrow> j + 4 \<le> length r \<Longrightarrow> row_written r j d k ! (j + b) = d ! (k + b)"
proof -
  assume b: "b < 4" and l: "j + 4 \<le> length r"
  from b consider "b = 0" | "b = 1" | "b = 2" | "b = 3" by linarith
  then show ?thesis using l
    by cases (simp_all add: row_written_def nth_list_update eval_nat_numeral)
qed

lemma row_written_outside:
  "b < j \<or> j + 4 \<le> b \<Longrightarrow> row_written r j d k ! b = r ! b"
  by (auto simp: row_written_def nth_list_update)

lemma block_written_row_inside:
  "a < 4 \<Longrightarrow> i + 4 \<le> length h \<Longrightarrow>
     block_written h i j d ! (i + a) = row_written (h ! (i + a)) j d (a * 4)"
proof -
  assume a: "a < 4" and l: "i + 4 \<le> length h"
  from a consider "a = 0" | "a = 1" | "a = 2" | "a = 3" by linarith
  then show ?thesis using l
    by cases (simp_all add: block_written_def nth_list_update eval_nat_numeral)
qed

lemma block_written_row_outside:
  "a < i \<or> i + 4 \<le> a \<Longrightarrow> block_written h i j d ! a = h ! a"
  by (auto simp: block_written_def nth_list_update)

lemma block_written_inside:
  assumes "a < 4" "b < 4" "i + 4 \<le> length h" "j + 4 \<le> length (h ! (i + a))"
  shows "block_written h i j d ! (i + a) ! (j + b) = d ! (a * 4 + b)"
  using assms by (simp add: block_written_row_inside row_written_inside)

lemma block_written_outside:
  assumes "i + 4 \<le> length h" "a < i \<or> i + 4 \<le> a \<or> b < j \<or> j + 4 \<le> b"
  shows "block_written h i j d ! a ! b = h ! a ! b"
proof (cases "a < i \<or> i + 4 \<le> a")
  case True
  then show ?thesis by (simp add: block_written_row_outside)
next
  case False
  then obtain k where k: "a = i + k" "k < 4" by (metis add_diff_inverse_nat nat_add_left_cancel_less not_less)
  with assms False have "b < j \<or> j + 4 \<le> b" by auto
  then show ?thesis using k assms(1)
    by (simp add: block_written_row_inside row_written_outside)
qed

lemma row_written_twice: "row_written (row_written r j d k) j d k = row_written r j d k"
  by (rule nth_equalityI) (simp_all add: row_written_def nth_update_any)

lemma block_written_twice:
  assumes "i + 4 \<le> length h"
  shows "block_written (block_written h i j d) i j d = block_written h i j d"
proof (rule nth_equalityI)
  show "length (block_written (block_written h i j d) i j d) = length (block_written h i j d)"
    by (simp add: length_block_written)
next
  fix a assume "a < length (block_written (block_written h i j d) i j d)"
  then have al: "a < length h" by (simp add: length_block_written)
  have l': "i + 4 \<le> length (block_written h i j d)" using assms by (simp add: length_block_written)
  show "block_written (block_written h i j d) i j d ! a = block_written h i j d ! a"
  proof (cases "a < i \<or> i + 4 \<le> a")
    case True
    then show ?thesis by (simp add: block_written_row_outside)
  next
    case False
    then obtain k where k: "a = i + k" "k < 4" by (metis add_diff_inverse_nat nat_add_left_cancel_less not_less)
    show ?thesis
      unfolding k(1)
      by (simp only: block_written_row_inside [OF k(2) l'] block_written_row_inside [OF k(2) assms]
            row_written_twice)
  qed
qed

lemma bit_or_chunk:
  "bit (b OR push_bit n (1 :: 64 word)) m \<longleftrightarrow> bit b m \<or> (m = n \<and> n < 64)"
  by (auto simp: bit_simps)

subsection \<open>Debug and release builds\<close>

lemma copy_y_debug:
  "copy_y dbg p ix iy x y h = Inl AssertFailed \<or> copy_y dbg p ix iy x y h = copy_y False p ix iy x y h"
proof (induction dbg p ix iy x y h rule: copy_y.induct)
  case (1 dbg p ix iy x y h)
  show ?case
    using 1
    by (simp add: copy_y.simps [of dbg p ix iy x y h] copy_y.simps [of False p ix iy x y h]
          ASSERT_RANGE_def split: sum.splits)
qed

lemma copy_x_debug:
  "copy_x dbg p ix iy x h = Inl AssertFailed \<or> copy_x dbg p ix iy x h = copy_x False p ix iy x h"
proof (induction dbg p ix iy x h rule: copy_x.induct)
  case (1 dbg p ix iy x h)
  show ?case
  proof (cases "x < TERRAIN_GRID_MAVLINK_SIZE")
    case False
    then show ?thesis
      by (simp add: copy_x.simps [of dbg p ix iy x h] copy_x.simps [of False p ix iy x h])
  next
    case True
    show ?thesis
    proof (cases "copy_y dbg p ix iy x 0 h")
      case (Inl e)
      from copy_y_debug [of dbg p ix iy x 0 h] Inl
      consider "e = AssertFailed" | "copy_y False p ix iy x 0 h = Inl e" by auto
      then show ?thesis
      proof cases
        case 1
        with True Inl show ?thesis by (simp add: copy_x.simps [of dbg p ix iy x h])
      next
        case 2
        with True Inl show ?thesis
          by (simp add: copy_x.simps [of dbg p ix iy x h] copy_x.simps [of False p ix iy x h])
      qed
    next
      case (Inr b)
      with copy_y_debug [of dbg p ix iy x 0 h] have f: "copy_y False p ix iy x 0 h = Inr b" by simp
      from 1 [OF True Inr] True Inr f show ?thesis
        by (simp add: copy_x.simps [of dbg p ix iy x h] copy_x.simps [of False p ix iy x h])
    qed
  qed
qed

lemma apply_terrain_data_debug:
  "apply_terrain_data dbg p t = Inl AssertFailed \<or>
   apply_terrain_data dbg p t = apply_terrain_data False p t"
proof (cases dbg)
  case False
  then show ?thesis by simp
next
  case True
  let ?h = "height (grid (cache t ! find_packet_grid p (cache t) 0))"
  have k: "copy_x dbg p (idx_x p) (idx_y p) 0 ?h = Inl AssertFailed \<or>
      copy_x dbg p (idx_x p) (idx_y p) 0 ?h = copy_x False p (idx_x p) (idx_y p) 0 ?h"
    by (rule copy_x_debug)
  show ?thesis
  proof (cases "find_packet_grid p (cache t) 0 = length (cache t)")
    case True
    then show ?thesis by (simp add: apply_terrain_data_def)
  next
    case False
    from k show ?thesis
    proof
      assume "copy_x dbg p (idx_x p) (idx_y p) 0 ?h = Inl AssertFailed"
      with False have "apply_terrain_data dbg p t = Inl AssertFailed"
        by (simp add: apply_terrain_data_def Let_def ASSERT_RANGE_def)
      then show ?thesis by simp
    next
      assume e: "copy_x dbg p (idx_x p) (idx_y p) 0 ?h = copy_x False p (idx_x p) (idx_y p) 0 ?h"
      with False show ?thesis
        by (simp add: apply_terrain_data_def Let_def ASSERT_RANGE_def)
    qed
  qed
qed

lemma wf_cache_nth: "wf_cache cs \<Longrightarrow> r < length cs \<Longrightarrow> wf_block (grid (cs ! r))"
  by (simp add: wf_cache_def list_all_length)

lemma wf_block_dims:
  "wf_block g \<Longrightarrow> length (height g) = 28 \<and> (\<forall>i < length (height g). length (height g ! i) = 32)"
  by (simp add: wf_block_def list_all_length TERRAIN_GRID_BLOCK_SIZE_X_def TERRAIN_GRID_BLOCK_SIZE_Y_def
       TERRAIN_GRID_MAVLINK_SIZE_def TERRAIN_GRID_BLOCK_MUL_X_def TERRAIN_GRID_BLOCK_MUL_Y_def)

lemma samples_in_range_nth:
  "samples_in_range p \<Longrightarrow> k < length (data p) \<Longrightarrow> 1 \<le> sint (data p ! k) \<and> sint (data p ! k) \<le> 20000"
  by (simp add: samples_in_range_def list_all_length)

lemma apply_terrain_data_ignored:
  "find_packet_grid p (cache t) 0 = length (cache t) \<Longrightarrow> apply_terrain_data dbg p t = Inr None"
  by (simp add: apply_terrain_data_def)

lemma apply_terrain_data_accepted:
  assumes wf: "wf_cache (cache t)" "wf_packet p"
    and r: "find_packet_grid p (cache t) 0 < length (cache t)"
    and s: "dbg \<longrightarrow> samples_in_range p"
  shows "apply_terrain_data dbg p t =
           Inr (Some (t\<lparr>cache := (cache t)
             [find_packet_grid p (cache t) 0 := chunk_stored p (cache t ! find_packet_grid p (cache t) 0)]\<rparr>))"
proof -
  let ?r = "find_packet_grid p (cache t) 0"
  let ?h = "height (grid (cache t ! ?r))"
  have g: "gridbit p < 56" using find_packet_grid_hit [OF r] by simp
  have dims: "length ?h = 28" "\<forall>i < length ?h. length (?h ! i) = 32"
    using wf_block_dims [OF wf_cache_nth [OF wf(1) r]] by simp_all
  have d: "length (data p) = 16" using wf(2) by (simp add: wf_packet_def TERRAIN_GRID_MAVLINK_SIZE_def)
  have ix: "unat (idx_x p) + 4 \<le> length ?h" using idx_x_bound [OF g] dims by simp
  have iy: "\<forall>i < length ?h. unat (idx_y p) + 4 \<le> length (?h ! i)" using idx_y_bound [of p] dims by simp
  have a: "\<forall>k < length (data p). dbg \<longrightarrow> 1 \<le> sint (data p ! k) \<and> sint (data p ! k) \<le> 20000"
    using s samples_in_range_nth [of p] by blast
  have c: "copy_x dbg p (idx_x p) (idx_y p) 0 ?h = Inr (block_written ?h (unat (idx_x p)) (unat (idx_y p)) (data p))"
    by (rule copy_x_closed [OF ix iy d a])
  have ax: "uint (idx_x p) \<le> 24" unfolding uint_nat using idx_x_bound [OF g] by linarith
  have ay: "uint (idx_y p) \<le> 28" unfolding uint_nat using idx_y_bound [of p] by linarith
  have a1: "ASSERT_RANGE dbg (uint (idx_x p)) 0
              (int ((TERRAIN_GRID_BLOCK_MUL_X - 1) * TERRAIN_GRID_MAVLINK_SIZE)) = Inr ()"
    using ax by (simp add: ASSERT_RANGE_def TERRAIN_GRID_BLOCK_MUL_X_def TERRAIN_GRID_MAVLINK_SIZE_def)
  have a2: "ASSERT_RANGE dbg (uint (idx_y p)) 0
              (int ((TERRAIN_GRID_BLOCK_MUL_Y - 1) * TERRAIN_GRID_MAVLINK_SIZE)) = Inr ()"
    using ay by (simp add: ASSERT_RANGE_def TERRAIN_GRID_BLOCK_MUL_Y_def TERRAIN_GRID_MAVLINK_SIZE_def)
  have ne: "?r \<noteq> length (cache t)" using r by simp
  show ?thesis
    unfolding apply_terrain_data_def Let_def
    by (simp only: ne if_False a1 a2 c sum.case chunk_stored_def)
qed

lemma apply_terrain_data_no_overrun:
  assumes wf: "wf_cache (cache t)" "wf_packet p"
  shows "apply_terrain_data dbg p t \<noteq> Inl OutOfBounds"
proof -
  have "\<exists>v. apply_terrain_data False p t = Inr v"
  proof (cases "find_packet_grid p (cache t) 0 < length (cache t)")
    case True
    then show ?thesis using apply_terrain_data_accepted [OF wf True, of False] by simp
  next
    case False
    moreover have "find_packet_grid p (cache t) 0 \<le> length (cache t)" by (rule find_packet_grid_le) simp
    ultimately have "find_packet_grid p (cache t) 0 = length (cache t)" by simp
    then show ?thesis by (simp add: apply_terrain_data_ignored)
  qed
  then show ?thesis using apply_terrain_data_debug [of dbg p t] by auto
qed

subsection \<open>Deliveries one after the other\<close>

lemma find_packet_grid_cong:
  assumes "length cs' = length cs" "\<forall>j < length cs. addresses p (cs' ! j) = addresses p (cs ! j)"
  shows "find_packet_grid p cs' i = find_packet_grid p cs i"
  using assms
proof (induction p cs i rule: find_packet_grid.induct)
  case (1 p cs i)
  show ?case
  proof (cases "i < length cs \<and> \<not> (addresses p (cs ! i) \<and> gridbit p < 56)")
    case True
    with 1(1) 1(2,3) have "find_packet_grid p cs' (Suc i) = find_packet_grid p cs (Suc i)"
      by (simp add: addresses_def)
    with True 1(2,3) show ?thesis
      by (subst find_packet_grid_unfold, subst (2) find_packet_grid_unfold) auto
  next
    case False
    with 1(2,3) show ?thesis
      by (subst find_packet_grid_unfold, subst (2) find_packet_grid_unfold) auto
  qed
qed

lemma find_packet_grid_grids:
  assumes "map grid cs' = map grid cs"
  shows "find_packet_grid p cs' i = find_packet_grid p cs i"
proof (rule find_packet_grid_cong)
  show l: "length cs' = length cs" using assms by (metis length_map)
  show "\<forall>j < length cs. addresses p (cs' ! j) = addresses p (cs ! j)"
  proof (intro allI impI)
    fix j assume j: "j < length cs"
    then have "grid (cs' ! j) = grid (cs ! j)" using assms l by (metis nth_map)
    then show "addresses p (cs' ! j) = addresses p (cs ! j)" by (simp add: addresses_def)
  qed
qed

lemma wf_cache_grids: "map grid cs' = map grid cs \<Longrightarrow> wf_cache cs' = wf_cache cs"
proof -
  assume a: "map grid cs' = map grid cs"
  have "wf_cache xs = list_all wf_block (map grid xs)" for xs :: "grid_cache list"
    by (simp add: wf_cache_def list_all_iff)
  with a show ?thesis by simp
qed

lemma addresses_chunk_stored: "addresses q (chunk_stored p c) = addresses q c"
  by (simp add: addresses_def chunk_stored_def)

lemma wf_block_block_written:
  assumes "wf_block g"
  shows "wf_block (g\<lparr>bitmap := b, height := block_written (height g) i j d\<rparr>)"
  using assms
  by (simp add: wf_block_def list_all_length length_block_written length_block_written_row)

lemma wf_cache_update:
  assumes "wf_cache cs" "wf_block (grid c)"
  shows "wf_cache (cs[i := c])"
  using assms by (auto simp: wf_cache_def list_all_length nth_update_any)

lemma wf_chunk_stored: "wf_block (grid c) \<Longrightarrow> wf_block (grid (chunk_stored p c))"
  using wf_block_block_written [of "grid c"] by (simp add: chunk_stored_def)

lemma handle_terrain_data_step:
  assumes k: "keeps_grids env"
    and wf: "wf_cache (cache s)" "wf_packet p"
    and r: "find_packet_grid p (cache s) 0 = i" "i < length (cache s)"
    and a: "TERRAIN_DEBUG env \<longrightarrow> samples_in_range p"
  shows "\<exists>s'. handle_terrain_data env p s = Inr s' \<and>
           map grid (cache s') = (map grid (cache s))[i := grid (chunk_stored p (cache s ! i))]"
proof -
  have r': "find_packet_grid p (cache s) 0 < length (cache s)" using r by simp
  have e: "handle_terrain_data env p s =
             Inr (update env (s\<lparr>cache := (cache s)[i := chunk_stored p (cache s ! i)]\<rparr>))"
    using apply_terrain_data_accepted [OF wf r' a] r(1) by (simp add: handle_terrain_data_def)
  have "map grid (cache (update env (s\<lparr>cache := (cache s)[i := chunk_stored p (cache s ! i)]\<rparr>)))
          = map grid ((cache s)[i := chunk_stored p (cache s ! i)])"
    using k by (simp add: keeps_grids_def)
  then show ?thesis using e by (simp add: map_update)
qed

lemma step_invariants:
  assumes m: "map grid cs' = (map grid cs)[i := grid (chunk_stored p (cs ! i))]"
    and i: "i < length cs" and wf: "wf_cache cs"
  shows "wf_cache cs'"
    and "length cs' = length cs"
    and "find_packet_grid q cs' 0 = find_packet_grid q cs 0"
    and "bitmap (grid (cs' ! i)) = bitmap (grid (cs ! i)) OR push_bit (unat (gridbit p)) 1"
    and "height (grid (cs' ! i)) = block_written (height (grid (cs ! i))) (unat (idx_x p)) (unat (idx_y p)) (data p)"
proof -
  let ?u = "cs[i := chunk_stored p (cs ! i)]"
  have m': "map grid cs' = map grid ?u" using m by (simp add: map_update)
  have wfu: "wf_cache ?u"
    by (rule wf_cache_update [OF wf wf_chunk_stored [OF wf_cache_nth [OF wf i]]])
  show "wf_cache cs'" using wf_cache_grids [OF m'] wfu by simp
  show l: "length cs' = length cs" using m' by (metis length_map length_list_update)
  have "find_packet_grid q ?u 0 = find_packet_grid q cs 0"
    by (rule find_packet_grid_cong) (auto simp: nth_update_any addresses_chunk_stored)
  then show "find_packet_grid q cs' 0 = find_packet_grid q cs 0"
    using find_packet_grid_grids [OF m'] by simp
  have g: "grid (cs' ! i) = grid (chunk_stored p (cs ! i))"
  proof -
    have "grid (cs' ! i) = map grid cs' ! i" using i l by simp
    also have "\<dots> = map grid ?u ! i" by (simp only: m')
    also have "\<dots> = grid (chunk_stored p (cs ! i))" using i by simp
    finally show ?thesis .
  qed
  show "bitmap (grid (cs' ! i)) = bitmap (grid (cs ! i)) OR push_bit (unat (gridbit p)) 1"
    by (simp add: g chunk_stored_def)
  show "height (grid (cs' ! i)) = block_written (height (grid (cs ! i))) (unat (idx_x p)) (unat (idx_y p)) (data p)"
    by (simp add: g chunk_stored_def)
qed

lemma handle_terrain_data_list_bitmap:
  assumes k: "keeps_grids env"
    and i: "i < length (cache t)"
    and wf: "wf_cache (cache t)"
    and ps: "\<forall>p \<in> set ps. wf_packet p \<and> find_packet_grid p (cache t) 0 = i \<and>
               (TERRAIN_DEBUG env \<longrightarrow> samples_in_range p)"
  shows "\<exists>t'. handle_terrain_data_list env ps t = Inr t' \<and> length (cache t') = length (cache t) \<and>
           (\<forall>n. bit (bitmap (grid (cache t' ! i))) n \<longleftrightarrow>
                  bit (bitmap (grid (cache t ! i))) n \<or> (\<exists>p \<in> set ps. unat (gridbit p) = n))"
  using i wf ps
proof (induction ps arbitrary: t)
  case Nil
  then show ?case by simp
next
  case (Cons p ps)
  from Cons.prems have p: "wf_packet p" "find_packet_grid p (cache t) 0 = i"
      "TERRAIN_DEBUG env \<longrightarrow> samples_in_range p" by simp_all
  obtain s where s: "handle_terrain_data env p t = Inr s"
      "map grid (cache s) = (map grid (cache t))[i := grid (chunk_stored p (cache t ! i))]"
    using handle_terrain_data_step [OF k Cons.prems(2) p(1) p(2) Cons.prems(1) p(3)] by blast
  note inv = step_invariants [OF s(2) Cons.prems(1) Cons.prems(2)]
  have g: "gridbit p < 56" using find_packet_grid_hit [of p "cache t" 0] p(2) Cons.prems(1) by simp
  then have g64: "unat (gridbit p) < 64" by (simp add: word_less_nat_alt)
  have i': "i < length (cache s)" using inv(2) Cons.prems(1) by simp
  have ps': "\<forall>q \<in> set ps. wf_packet q \<and> find_packet_grid q (cache s) 0 = i \<and>
               (TERRAIN_DEBUG env \<longrightarrow> samples_in_range q)"
    using Cons.prems(3) inv(3) by simp
  obtain t' where t': "handle_terrain_data_list env ps s = Inr t'" "length (cache t') = length (cache s)"
      "\<forall>n. bit (bitmap (grid (cache t' ! i))) n \<longleftrightarrow>
             bit (bitmap (grid (cache s ! i))) n \<or> (\<exists>q \<in> set ps. unat (gridbit q) = n)"
    using Cons.IH [OF i' inv(1) ps'] by blast
  have b: "bit (bitmap (grid (cache s ! i))) n \<longleftrightarrow>
             bit (bitmap (grid (cache t ! i))) n \<or> n = unat (gridbit p)" for n
    using g64 by (simp only: inv(4) bit_or_chunk simp_thms)
  have "handle_terrain_data_list env (p # ps) t = Inr t'" using s(1) t'(1) by simp
  moreover have "length (cache t') = length (cache t)" using t'(2) inv(2) by simp
  moreover have "\<forall>n. bit (bitmap (grid (cache t' ! i))) n \<longleftrightarrow>
             bit (bitmap (grid (cache t ! i))) n \<or> (\<exists>q \<in> set (p # ps). unat (gridbit q) = n)"
    using t'(3) b by auto
  ultimately show ?case by blast
qed

subsection \<open>Ingestion: bounds, states, samples, order\<close>

lemma wf_example_tile: "wf_block (grid (example_tile st b))"
  by (simp add: example_tile_def wf_block_def list_all_iff TERRAIN_GRID_BLOCK_SIZE_X_def
       TERRAIN_GRID_BLOCK_SIZE_Y_def TERRAIN_GRID_MAVLINK_SIZE_def TERRAIN_GRID_BLOCK_MUL_X_def
       TERRAIN_GRID_BLOCK_MUL_Y_def)

lemma wf_example_terrain: "wf_cache (cache (example_terrain en [example_tile st b]))"
  by (simp add: example_terrain_def wf_cache_def wf_example_tile)

lemma wf_example_packet: "length d = 16 \<Longrightarrow> wf_packet (example_packet g d)"
  by (simp add: example_packet_def wf_packet_def TERRAIN_GRID_MAVLINK_SIZE_def)

lemma find_example:
  "g < 56 \<Longrightarrow> find_packet_grid (example_packet g d) (cache (example_terrain en [example_tile st b])) 0 = 0"
  by (simp add: find_packet_grid.simps example_packet_def example_terrain_def example_tile_def)

lemma find_example_reject:
  "\<not> g < 56 \<Longrightarrow> find_packet_grid (example_packet g d) (cache (example_terrain en [example_tile st b])) 0 = 1"
  by (simp add: find_packet_grid.simps example_packet_def example_terrain_def example_tile_def)

text \<open>
  C1: a TERRAIN\_DATA payload whose \<open>gridbit\<close> is not below 56 is dropped by the early
  return: the object is returned unchanged and \<open>update()\<close> is not called. For a payload
  with \<open>gridbit < 56\<close> the offsets \<open>idx_x\<close> and \<open>idx_y\<close> pass the range checks of the
  source and every write position \<open>(idx_x + x, idx_y + y)\<close> lies inside the 28 x 32 matrix;
  no run of \<open>handle_terrain_data\<close> reads or writes outside an array.
\<close>

theorem terrain_data_stays_in_bounds:
  assumes "wf_cache (cache t)" "wf_packet packet"
  shows "(\<not> gridbit packet < 56 \<longrightarrow>
            apply_terrain_data dbg packet t = Inr None \<and> handle_terrain_data env packet t = Inr t)
       \<and> apply_terrain_data dbg packet t \<noteq> Inl OutOfBounds
       \<and> handle_terrain_data env packet t \<noteq> Inl OutOfBounds
       \<and> (gridbit packet < 56 \<longrightarrow>
            uint (idx_x packet) \<le> int ((TERRAIN_GRID_BLOCK_MUL_X - 1) * TERRAIN_GRID_MAVLINK_SIZE) \<and>
            uint (idx_y packet) \<le> int ((TERRAIN_GRID_BLOCK_MUL_Y - 1) * TERRAIN_GRID_MAVLINK_SIZE) \<and>
            (\<forall>x < TERRAIN_GRID_MAVLINK_SIZE. \<forall>y < TERRAIN_GRID_MAVLINK_SIZE.
               unat (idx_x packet) + x < TERRAIN_GRID_BLOCK_SIZE_X \<and>
               unat (idx_y packet) + y < TERRAIN_GRID_BLOCK_SIZE_Y))"
proof (intro conjI impI)
  assume n: "\<not> gridbit packet < 56"
  show "apply_terrain_data dbg packet t = Inr None"
    by (rule apply_terrain_data_ignored [OF find_packet_grid_reject [OF n]])
  show "handle_terrain_data env packet t = Inr t"
    by (simp add: handle_terrain_data_def apply_terrain_data_ignored [OF find_packet_grid_reject [OF n]])
next
  show "apply_terrain_data dbg packet t \<noteq> Inl OutOfBounds"
    by (rule apply_terrain_data_no_overrun [OF assms])
next
  show "handle_terrain_data env packet t \<noteq> Inl OutOfBounds"
    using apply_terrain_data_no_overrun [OF assms, of "TERRAIN_DEBUG env"]
    by (auto simp: handle_terrain_data_def split: sum.splits option.splits)
next
  assume g: "gridbit packet < 56"
  have "uint (idx_x packet) \<le> 24" unfolding uint_nat using idx_x_bound [OF g] by linarith
  then show "uint (idx_x packet) \<le> int ((TERRAIN_GRID_BLOCK_MUL_X - 1) * TERRAIN_GRID_MAVLINK_SIZE)"
    by (simp add: TERRAIN_GRID_BLOCK_MUL_X_def TERRAIN_GRID_MAVLINK_SIZE_def)
  have "uint (idx_y packet) \<le> 28" unfolding uint_nat using idx_y_bound [of packet] by linarith
  then show "uint (idx_y packet) \<le> int ((TERRAIN_GRID_BLOCK_MUL_Y - 1) * TERRAIN_GRID_MAVLINK_SIZE)"
    by (simp add: TERRAIN_GRID_BLOCK_MUL_Y_def TERRAIN_GRID_MAVLINK_SIZE_def)
  show "\<forall>x < TERRAIN_GRID_MAVLINK_SIZE. \<forall>y < TERRAIN_GRID_MAVLINK_SIZE.
          unat (idx_x packet) + x < TERRAIN_GRID_BLOCK_SIZE_X \<and>
          unat (idx_y packet) + y < TERRAIN_GRID_BLOCK_SIZE_Y"
    using idx_x_bound [OF g] idx_y_bound [of packet]
    by (simp add: TERRAIN_GRID_BLOCK_SIZE_X_def TERRAIN_GRID_BLOCK_SIZE_Y_def
          TERRAIN_GRID_MAVLINK_SIZE_def TERRAIN_GRID_BLOCK_MUL_X_def TERRAIN_GRID_BLOCK_MUL_Y_def)
qed

theorem terrain_data_stays_in_bounds_witness:
  "handle_terrain_data (example_env GRID_CACHE_VALID 0 0) (example_packet 56 (replicate 16 7))
       (example_terrain 1 [example_tile GRID_CACHE_VALID 0])
     = Inr (example_terrain 1 [example_tile GRID_CACHE_VALID 0])
   \<and> handle_terrain_data (example_env GRID_CACHE_VALID 0 0) (example_packet 55 (replicate 16 7))
       (example_terrain 1 [example_tile GRID_CACHE_VALID 0]) \<noteq> Inl OutOfBounds
   \<and> unat (idx_x (example_packet 55 (replicate 16 7))) + 3 < TERRAIN_GRID_BLOCK_SIZE_X
   \<and> unat (idx_y (example_packet 55 (replicate 16 7))) + 3 < TERRAIN_GRID_BLOCK_SIZE_Y"
proof -
  have i: "unat (idx_x (example_packet 55 (replicate 16 7))) = 24"
    "unat (idx_y (example_packet 55 (replicate 16 7))) = 28"
    by (simp_all add: idx_x_def idx_y_def example_packet_def TERRAIN_GRID_BLOCK_MUL_Y_def
          TERRAIN_GRID_MAVLINK_SIZE_def)
  have w: "wf_packet (example_packet g (replicate 16 7))" for g
    by (rule wf_example_packet) simp
  show ?thesis
    using terrain_data_stays_in_bounds [where t = "example_terrain 1 [example_tile GRID_CACHE_VALID 0]"
        and packet = "example_packet 56 (replicate 16 7)" and dbg = False
        and env = "example_env GRID_CACHE_VALID 0 0", OF wf_example_terrain w]
      terrain_data_stays_in_bounds [where t = "example_terrain 1 [example_tile GRID_CACHE_VALID 0]"
        and packet = "example_packet 55 (replicate 16 7)" and dbg = False
        and env = "example_env GRID_CACHE_VALID 0 0", OF wf_example_terrain w]
    by (simp add: i TERRAIN_GRID_BLOCK_SIZE_X_def TERRAIN_GRID_BLOCK_SIZE_Y_def
          TERRAIN_GRID_MAVLINK_SIZE_def TERRAIN_GRID_BLOCK_MUL_X_def TERRAIN_GRID_BLOCK_MUL_Y_def
          example_packet_def [of 56])
qed

text \<open>
  C2 (as amended): a payload that is accepted sets the state of the entry it is written
  to to Dirty, whatever the state was before and whether or not its bit was already set;
  no other entry is touched, and a payload that is ignored changes nothing.
\<close>

theorem terrain_data_marks_dirty:
  assumes "wf_cache (cache t)" "wf_packet packet" "dbg \<longrightarrow> samples_in_range packet"
  shows "(find_packet_grid packet (cache t) 0 < length (cache t) \<longrightarrow>
            (\<exists>t'. apply_terrain_data dbg packet t = Inr (Some t') \<and>
                  length (cache t') = length (cache t) \<and>
                  state (cache t' ! find_packet_grid packet (cache t) 0) = GRID_CACHE_DIRTY \<and>
                  (\<forall>j < length (cache t). j \<noteq> find_packet_grid packet (cache t) 0 \<longrightarrow>
                       cache t' ! j = cache t ! j)))
       \<and> (\<not> find_packet_grid packet (cache t) 0 < length (cache t) \<longrightarrow>
            apply_terrain_data dbg packet t = Inr None)"
proof (intro conjI impI)
  assume r: "find_packet_grid packet (cache t) 0 < length (cache t)"
  show "\<exists>t'. apply_terrain_data dbg packet t = Inr (Some t') \<and>
                  length (cache t') = length (cache t) \<and>
                  state (cache t' ! find_packet_grid packet (cache t) 0) = GRID_CACHE_DIRTY \<and>
                  (\<forall>j < length (cache t). j \<noteq> find_packet_grid packet (cache t) 0 \<longrightarrow>
                       cache t' ! j = cache t ! j)"
    using r by (simp add: apply_terrain_data_accepted [OF assms(1,2) r assms(3)] chunk_stored_def)
next
  assume "\<not> find_packet_grid packet (cache t) 0 < length (cache t)"
  moreover have "find_packet_grid packet (cache t) 0 \<le> length (cache t)"
    by (rule find_packet_grid_le) simp
  ultimately have "find_packet_grid packet (cache t) 0 = length (cache t)" by simp
  then show "apply_terrain_data dbg packet t = Inr None" by (rule apply_terrain_data_ignored)
qed

lemma apply_example:
  assumes "g < 56" "length d = 16"
  shows "apply_terrain_data False (example_packet g d) (example_terrain en [example_tile st b]) =
           Inr (Some (example_terrain en [chunk_stored (example_packet g d) (example_tile st b)]))"
proof -
  have r: "find_packet_grid (example_packet g d) (cache (example_terrain en [example_tile st b])) 0
             < length (cache (example_terrain en [example_tile st b]))"
    using find_example [OF assms(1), of d en st b] by (simp add: example_terrain_def)
  show ?thesis
    using apply_terrain_data_accepted [OF wf_example_terrain wf_example_packet [OF assms(2)] r, of False]
    by (simp add: find_example [OF assms(1)]) (simp add: example_terrain_def)
qed

theorem terrain_data_marks_dirty_witness:
  "\<exists>t'. apply_terrain_data False (example_packet 3 (replicate 16 7))
           (example_terrain 1 [example_tile GRID_CACHE_VALID 0]) = Inr (Some t') \<and>
        length (cache t') = 1 \<and> state (cache t' ! 0) = GRID_CACHE_DIRTY"
proof -
  have w: "wf_packet (example_packet 3 (replicate 16 7))" by (rule wf_example_packet) simp
  have f: "find_packet_grid (example_packet 3 (replicate 16 7))
             (cache (example_terrain 1 [example_tile GRID_CACHE_VALID 0])) 0 = 0"
    by (rule find_example) simp
  show ?thesis
    using terrain_data_marks_dirty [where t = "example_terrain 1 [example_tile GRID_CACHE_VALID 0]"
        and packet = "example_packet 3 (replicate 16 7)" and dbg = False, OF wf_example_terrain w]
    by (simp add: f) (simp add: example_terrain_def)
qed

text \<open>
  An entry in DiskWait that receives a chunk leaves DiskWait and becomes Dirty; a Valid
  entry whose bit 3 is already set becomes Dirty although no new bit is set.
\<close>

theorem terrain_data_diskwait_counterexample:
  "(case apply_terrain_data False (example_packet 3 (replicate 16 7))
           (example_terrain 1 [example_tile GRID_CACHE_DISKWAIT 0]) of
      Inr (Some t') \<Rightarrow> map (\<lambda>c. (state c, bitmap (grid c))) (cache t')
    | _ \<Rightarrow> []) = [(GRID_CACHE_DIRTY, 8)]
   \<and> (case apply_terrain_data False (example_packet 3 (replicate 16 7))
           (example_terrain 1 [example_tile GRID_CACHE_VALID 8]) of
      Inr (Some t') \<Rightarrow> map (\<lambda>c. (state c, bitmap (grid c))) (cache t')
    | _ \<Rightarrow> []) = [(GRID_CACHE_DIRTY, 8)]"
  by (simp add: apply_example) (simp add: example_terrain_def chunk_stored_def example_tile_def example_packet_def)

lemma bit_bitmap_chunk_stored:
  "bit (bitmap (grid (chunk_stored p c))) m \<longleftrightarrow>
     bit (bitmap (grid c)) m \<or> (m = unat (gridbit p) \<and> unat (gridbit p) < 64)"
  by (auto simp: chunk_stored_def bit_simps)

text \<open>
  C10: in a release build every payload that passes the lookup and the chunk index test
  has all 4 x 4 samples copied into the matrix as they are, at \<open>(idx_x + x, idx_y + y)\<close>,
  and its bit set in the bitmap, whatever the sample values; the range check on the
  samples has no effect there.
\<close>

theorem terrain_data_written_verbatim:
  assumes "wf_cache (cache t)" "wf_packet packet"
    and "find_packet_grid packet (cache t) 0 < length (cache t)"
    and "\<not> TERRAIN_DEBUG env"
  shows "\<exists>t'. apply_terrain_data False packet t = Inr (Some t') \<and>
           handle_terrain_data env packet t = Inr (update env t') \<and>
           (\<forall>x < TERRAIN_GRID_MAVLINK_SIZE. \<forall>y < TERRAIN_GRID_MAVLINK_SIZE.
              height (grid (cache t' ! find_packet_grid packet (cache t) 0))
                ! (unat (idx_x packet) + x) ! (unat (idx_y packet) + y)
              = data packet ! (x * TERRAIN_GRID_MAVLINK_SIZE + y)) \<and>
           bit (bitmap (grid (cache t' ! find_packet_grid packet (cache t) 0))) (unat (gridbit packet))"
proof -
  let ?r = "find_packet_grid packet (cache t) 0"
  let ?h = "height (grid (cache t ! ?r))"
  let ?t' = "t\<lparr>cache := (cache t)[?r := chunk_stored packet (cache t ! ?r)]\<rparr>"
  have e: "apply_terrain_data False packet t = Inr (Some ?t')"
    using apply_terrain_data_accepted [OF assms(1,2,3), of False] by simp
  have g: "gridbit packet < 56" using find_packet_grid_hit [OF assms(3)] by simp
  then have g64: "unat (gridbit packet) < 64" by (simp add: word_less_nat_alt)
  have dims: "length ?h = 28" "\<forall>i < length ?h. length (?h ! i) = 32"
    using wf_block_dims [OF wf_cache_nth [OF assms(1,3)]] by simp_all
  have ix: "unat (idx_x packet) + 4 \<le> length ?h" using idx_x_bound [OF g] dims by simp
  have iy: "unat (idx_y packet) + 4 \<le> length (?h ! (unat (idx_x packet) + x))" if "x < 4" for x
    using idx_y_bound [of packet] dims ix that by simp
  have c: "cache ?t' ! ?r = chunk_stored packet (cache t ! ?r)" using assms(3) by simp
  have cells: "\<forall>x < TERRAIN_GRID_MAVLINK_SIZE. \<forall>y < TERRAIN_GRID_MAVLINK_SIZE.
              height (grid (cache ?t' ! ?r)) ! (unat (idx_x packet) + x) ! (unat (idx_y packet) + y)
              = data packet ! (x * TERRAIN_GRID_MAVLINK_SIZE + y)"
    unfolding c using block_written_inside [OF _ _ ix iy]
    by (simp add: chunk_stored_def TERRAIN_GRID_MAVLINK_SIZE_def)
  have b: "bit (bitmap (grid (cache ?t' ! ?r))) (unat (gridbit packet))"
    unfolding c using g64 by (simp add: bit_bitmap_chunk_stored)
  have h: "handle_terrain_data env packet t = Inr (update env ?t')"
    using assms(4) e by (simp add: handle_terrain_data_def)
  from e h cells b show ?thesis by blast
qed

theorem terrain_data_written_verbatim_witness:
  "\<not> samples_in_range (example_packet 3 [0, 65535, 20001, 30000, 1, 2, 3, 4, 5, 6, 7, 8, 9, 10, 11, 12]) \<and>
   (\<exists>t'. apply_terrain_data False
            (example_packet 3 [0, 65535, 20001, 30000, 1, 2, 3, 4, 5, 6, 7, 8, 9, 10, 11, 12])
            (example_terrain 1 [example_tile GRID_CACHE_VALID 0]) = Inr (Some t') \<and>
         height (grid (cache t' ! 0)) ! 0 ! 12 = 0 \<and>
         height (grid (cache t' ! 0)) ! 0 ! 13 = 65535 \<and>
         height (grid (cache t' ! 0)) ! 0 ! 14 = 20001 \<and>
         height (grid (cache t' ! 0)) ! 3 ! 15 = 12 \<and>
         bit (bitmap (grid (cache t' ! 0))) 3)"
proof -
  let ?p = "example_packet 3 [0, 65535, 20001, 30000, 1, 2, 3, 4, 5, 6, 7, 8, 9, 10, 11, 12]"
  let ?t = "example_terrain 1 [example_tile GRID_CACHE_VALID 0]"
  have w: "wf_packet ?p" by (rule wf_example_packet) simp
  have f: "find_packet_grid ?p (cache ?t) 0 = 0" by (rule find_example) simp
  have r: "find_packet_grid ?p (cache ?t) 0 < length (cache ?t)"
    unfolding f by (simp add: example_terrain_def)
  have d: "\<not> TERRAIN_DEBUG (example_env GRID_CACHE_VALID 0 0)" by (simp add: example_env_def)
  have i: "unat (idx_x ?p) = 0" "unat (idx_y ?p) = 12" "unat (gridbit ?p) = 3"
    by (simp_all add: idx_x_def idx_y_def example_packet_def TERRAIN_GRID_BLOCK_MUL_Y_def
          TERRAIN_GRID_MAVLINK_SIZE_def)
  obtain t' where t': "apply_terrain_data False ?p ?t = Inr (Some t')"
    "\<forall>x < TERRAIN_GRID_MAVLINK_SIZE. \<forall>y < TERRAIN_GRID_MAVLINK_SIZE.
        height (grid (cache t' ! 0)) ! (0 + x) ! (12 + y) = data ?p ! (x * TERRAIN_GRID_MAVLINK_SIZE + y)"
    "bit (bitmap (grid (cache t' ! 0))) 3"
    using terrain_data_written_verbatim [OF wf_example_terrain w r d] unfolding f i by blast
  have c: "height (grid (cache t' ! 0)) ! (0 + x) ! (12 + y) = data ?p ! (x * 4 + y)"
    if "x < 4" "y < 4" for x y
    using t'(2) that by (simp add: TERRAIN_GRID_MAVLINK_SIZE_def)
  have s: "\<not> samples_in_range ?p" by (simp add: samples_in_range_def example_packet_def)
  show ?thesis
    using s t'(1) t'(3) c [of 0 0] c [of 0 1] c [of 0 2] c [of 3 3]
    by (auto simp: example_packet_def)
qed

lemma chunk_stored_twice:
  assumes "unat (idx_x p) + 4 \<le> length (height (grid c))"
  shows "grid (chunk_stored p (chunk_stored p c)) = grid (chunk_stored p c)"
  by (simp add: chunk_stored_def block_written_twice [OF assms] or.assoc)

lemma handle_terrain_data_twice:
  assumes k: "keeps_grids env"
    and wf: "wf_cache (cache t)" "wf_packet p"
    and r: "find_packet_grid p (cache t) 0 = i" "i < length (cache t)"
    and a: "TERRAIN_DEBUG env \<longrightarrow> samples_in_range p"
  shows "\<exists>t1 t2. handle_terrain_data env p t = Inr t1 \<and> handle_terrain_data env p t1 = Inr t2 \<and>
           map grid (cache t2) = map grid (cache t1)"
proof -
  obtain t1 where t1: "handle_terrain_data env p t = Inr t1"
      "map grid (cache t1) = (map grid (cache t))[i := grid (chunk_stored p (cache t ! i))]"
    using handle_terrain_data_step [OF k wf r a] by blast
  note inv = step_invariants [OF t1(2) r(2) wf(1)]
  have r1: "find_packet_grid p (cache t1) 0 = i" using inv(3) [of p] r(1) by simp
  have i1: "i < length (cache t1)" using inv(2) r(2) by simp
  obtain t2 where t2: "handle_terrain_data env p t1 = Inr t2"
      "map grid (cache t2) = (map grid (cache t1))[i := grid (chunk_stored p (cache t1 ! i))]"
    using handle_terrain_data_step [OF k inv(1) wf(2) r1 i1 a] by blast
  have g: "gridbit p < 56" using find_packet_grid_hit [of p "cache t" 0] r by simp
  have dims: "length (height (grid (cache t ! i))) = 28"
    using wf_block_dims [OF wf_cache_nth [OF wf(1) r(2)]] by simp
  have ix: "unat (idx_x p) + 4 \<le> length (height (grid (cache t ! i)))"
    using idx_x_bound [OF g] dims by simp
  have g1: "grid (cache t1 ! i) = grid (chunk_stored p (cache t ! i))"
  proof -
    have "grid (cache t1 ! i) = map grid (cache t1) ! i" using i1 by simp
    also have "\<dots> = grid (chunk_stored p (cache t ! i))" using r(2) by (simp add: t1(2))
    finally show ?thesis .
  qed
  have "grid (chunk_stored p (cache t1 ! i)) = grid (chunk_stored p (chunk_stored p (cache t ! i)))"
    using g1 by (simp add: chunk_stored_def)
  also have "\<dots> = grid (chunk_stored p (cache t ! i))" by (rule chunk_stored_twice [OF ix])
  also have "\<dots> = map grid (cache t1) ! i" using g1 i1 by simp
  finally have "map grid (cache t2) = (map grid (cache t1))[i := map grid (cache t1) ! i]"
    using t2(2) by simp
  then have "map grid (cache t2) = map grid (cache t1)" by simp
  with t1(1) t2(1) show ?thesis by blast
qed

text \<open>
  C7: valid chunks for one tile (the entry at index \<open>i\<close>, the first with their address),
  delivered in any order: every run returns, the final bitmap holds the bits that were set
  before together with the bits of the chunks (for a tile that starts empty: exactly the
  bits of the chunks), so two orders of the same chunks end with the same bitmap; and
  delivering a chunk a second time leaves bitmap and matrix of every entry as they were
  after the first delivery. The housekeeping hook is assumed to leave the grids alone.
\<close>

theorem terrain_data_order_independent:
  assumes k: "keeps_grids env"
    and wf: "wf_cache (cache t)"
    and i: "i < length (cache t)"
    and ps: "\<forall>p \<in> set ps. wf_packet p \<and> gridbit p < 56 \<and> addresses p (cache t ! i) \<and>
               (\<forall>j < i. \<not> addresses p (cache t ! j)) \<and>
               (TERRAIN_DEBUG env \<longrightarrow> samples_in_range p)"
    and qs: "mset qs = mset ps"
  shows "\<exists>t' t''. handle_terrain_data_list env ps t = Inr t' \<and>
           handle_terrain_data_list env qs t = Inr t'' \<and>
           (\<forall>n. bit (bitmap (grid (cache t' ! i))) n \<longleftrightarrow>
                  bit (bitmap (grid (cache t ! i))) n \<or> (\<exists>p \<in> set ps. unat (gridbit p) = n)) \<and>
           (bitmap (grid (cache t ! i)) = 0 \<longrightarrow>
              (\<forall>n. bit (bitmap (grid (cache t' ! i))) n \<longleftrightarrow> (\<exists>p \<in> set ps. unat (gridbit p) = n))) \<and>
           bitmap (grid (cache t'' ! i)) = bitmap (grid (cache t' ! i)) \<and>
           (\<forall>p \<in> set ps. \<exists>t1 t2. handle_terrain_data env p t = Inr t1 \<and>
              handle_terrain_data env p t1 = Inr t2 \<and> map grid (cache t2) = map grid (cache t1))"
proof -
  have f: "find_packet_grid p (cache t) 0 = i" if "p \<in> set ps" for p
    by (rule find_packet_grid_unique) (use that ps i in auto)
  have ps': "\<forall>p \<in> set ps. wf_packet p \<and> find_packet_grid p (cache t) 0 = i \<and>
               (TERRAIN_DEBUG env \<longrightarrow> samples_in_range p)"
    using ps f by blast
  have s: "set qs = set ps" using qs by (rule mset_eq_setD)
  have qs': "\<forall>p \<in> set qs. wf_packet p \<and> find_packet_grid p (cache t) 0 = i \<and>
               (TERRAIN_DEBUG env \<longrightarrow> samples_in_range p)"
    using ps' s by simp
  obtain t' where t': "handle_terrain_data_list env ps t = Inr t'"
      "\<forall>n. bit (bitmap (grid (cache t' ! i))) n \<longleftrightarrow>
             bit (bitmap (grid (cache t ! i))) n \<or> (\<exists>p \<in> set ps. unat (gridbit p) = n)"
    using handle_terrain_data_list_bitmap [OF k i wf ps'] by blast
  obtain t'' where t'': "handle_terrain_data_list env qs t = Inr t''"
      "\<forall>n. bit (bitmap (grid (cache t'' ! i))) n \<longleftrightarrow>
             bit (bitmap (grid (cache t ! i))) n \<or> (\<exists>p \<in> set qs. unat (gridbit p) = n)"
    using handle_terrain_data_list_bitmap [OF k i wf qs'] by blast
  have e: "bitmap (grid (cache t'' ! i)) = bitmap (grid (cache t' ! i))"
    by (rule bit_eqI) (simp add: t'(2) t''(2) s)
  have z: "bitmap (grid (cache t ! i)) = 0 \<longrightarrow>
              (\<forall>n. bit (bitmap (grid (cache t' ! i))) n \<longleftrightarrow> (\<exists>p \<in> set ps. unat (gridbit p) = n))"
    using t'(2) by simp
  have tw: "\<forall>p \<in> set ps. \<exists>t1 t2. handle_terrain_data env p t = Inr t1 \<and>
              handle_terrain_data env p t1 = Inr t2 \<and> map grid (cache t2) = map grid (cache t1)"
  proof
    fix p assume p: "p \<in> set ps"
    with ps' have "wf_packet p" "find_packet_grid p (cache t) 0 = i"
      "TERRAIN_DEBUG env \<longrightarrow> samples_in_range p" by simp_all
    then show "\<exists>t1 t2. handle_terrain_data env p t = Inr t1 \<and>
              handle_terrain_data env p t1 = Inr t2 \<and> map grid (cache t2) = map grid (cache t1)"
      using handle_terrain_data_twice [OF k wf _ _ i] by blast
  qed
  from t'(1) t''(1) t'(2) z e tw show ?thesis by blast
qed

subsection \<open>The scheduler\<close>

lemma attempt_offsets_append:
  "attempt_offsets env chan loc (as @ bs) t =
     (case attempt_offsets env chan loc as t of
        (sent, out, t') \<Rightarrow>
          if sent then (True, out, t')
          else (case attempt_offsets env chan loc bs t' of
                  (sent', out', t'') \<Rightarrow> (sent', out @ out', t'')))"
  by (induction as arbitrary: t) (auto simp: Let_def split: prod.splits)

lemma fan_out_y_row:
  "fan_out_y env chan loc x (- 1) t = attempt_offsets env chan loc [(x, - 1), (x, 0), (x, 1)] t"
  by (simp add: fan_out_y.simps Let_def split: prod.splits)

lemma fan_out_x_rows:
  "fan_out_x env chan loc (- 1) t =
     attempt_offsets env chan loc
       ([(- 1, - 1), (- 1, 0), (- 1, 1)] @ [(0, - 1), (0, 0), (0, 1)] @ [(1, - 1), (1, 0), (1, 1)] @ []) t"
  by (simp only: attempt_offsets_append fan_out_y_row [symmetric])
     (simp add: fan_out_x.simps split: prod.splits)

lemma fan_out_x_nine:
  "fan_out_x env chan loc (- 1) t = attempt_offsets env chan loc nine_offsets t"
  by (simp add: fan_out_x_rows nine_offsets_def)

lemma issues_request_missing: "issues now (request_missing now chan c t)"
  by (simp add: issues_def request_missing_def)

lemma issues_request_missing_info: "issues (millis_issue env) (request_missing_info env chan info t)"
  by (simp add: request_missing_info_def issues_request_missing split: prod.splits)

lemma issues_attempt_offsets:
  "issues (millis_issue (env :: ('e, 'info, 'f) env)) (attempt_offsets env chan loc offs (t :: 'e terrain))"
proof (induction offs arbitrary: t)
  case Nil
  then show ?case by (simp add: issues_def)
next
  case (Cons xy offs)
  let ?info = "calculate_grid_info env t (location_offset env loc
                   (fan_offset env t (fst xy) TERRAIN_GRID_BLOCK_SIZE_X)
                   (fan_offset env t (snd xy) TERRAIN_GRID_BLOCK_SIZE_Y))"
  obtain sent and out :: "'f out_msg list" and t' where
    r: "request_missing_info env chan ?info t = (sent, out, t')"
    using prod_cases3 by blast
  have i1: "issues (millis_issue env) (sent, out, t')"
    unfolding r [symmetric] by (rule issues_request_missing_info)
  show ?case
  proof (cases sent)
    case True
    with r i1 show ?thesis by (simp add: Let_def)
  next
    case False
    obtain s2 o2 t2 where r2: "attempt_offsets env chan loc offs t' = (s2, o2, t2)"
      using prod_cases3 by blast
    have "issues (millis_issue env) (s2, o2, t2)" using Cons.IH [of t'] r2 by simp
    moreover have "out = []" using i1 False by (simp add: issues_def)
    ultimately show ?thesis using r r2 False by (simp add: Let_def)
  qed
qed

lemma issues_fan_out_x: "issues (millis_issue env) (fan_out_x env chan loc (- 1) t)"
  by (simp add: fan_out_x_nine issues_attempt_offsets)

lemma issues_check_cache_blocks:
  "issues (millis_issue (env :: ('e, 'info, 'f) env)) (check_cache_blocks env chan n i (t :: 'e terrain))"
proof (induction env chan n i t rule: check_cache_blocks.induct)
  case (1 env chan n i t)
  show ?case
  proof (cases "i < n")
    case False
    then show ?thesis by (simp add: check_cache_blocks.simps [of env chan n i t] issues_def)
  next
    case True
    show ?thesis
    proof (cases "state_ord (state (cache t ! i)) \<ge> state_ord GRID_CACHE_VALID")
      case False
      with True 1(2) show ?thesis by (simp add: check_cache_blocks.simps [of env chan n i t])
    next
      case v: True
      obtain sent and out :: "'f out_msg list" and t' where
        r: "request_missing (millis_issue env) chan (cache t ! i) t = (sent, out, t')"
        using prod_cases3 by blast
      have i1: "issues (millis_issue env) (sent, out, t')"
        unfolding r [symmetric] by (rule issues_request_missing)
      show ?thesis
      proof (cases sent)
        case True
        with r i1 \<open>i < n\<close> v show ?thesis
          by (simp add: check_cache_blocks.simps [of env chan n i t])
      next
        case False
        obtain s2 o2 t2 where r2: "check_cache_blocks env chan n (Suc i) t' = (s2, o2, t2)"
          using prod_cases3 by blast
        have "issues (millis_issue env) (s2, o2, t2)"
          using 1(1) [OF \<open>i < n\<close> v r [symmetric] refl] False r2 by simp
        moreover have "out = []" using i1 False by (simp add: issues_def)
        ultimately show ?thesis using r r2 False \<open>i < n\<close> v
          by (simp add: check_cache_blocks.simps [of env chan n i t])
      qed
    qed
  qed
qed

lemma send_terrain_report_out:
  "send_terrain_report env chan loc t = (out, t') \<Longrightarrow> length out \<le> 1 \<and> filter is_request out = []"
  by (auto simp: send_terrain_report_def Let_def split: prod.splits if_splits)

lemma issues_not_sent: "issues now (False, out, t') \<Longrightarrow> out = []"
  by (simp add: issues_def)

lemma issues_sent:
  "issues now (True, out, t') \<Longrightarrow>
     length out = 1 \<and> length (filter is_request out) = 1 \<and> last_request_time_ms t' = now"
  by (cases out) (auto simp: issues_def)

lemma send_request_outcome:
  fixes env :: "('e, 'info, 'f) env" and t :: "'e terrain"
  assumes "send_request env chan t = (out, t')"
  shows "length out \<le> 1 \<and>
         (filter is_request out \<noteq> [] \<longrightarrow> last_request_time_ms t' = millis_issue env)"
proof (cases "enable t = 0 \<or> millis_pacing env - last_request_time_ms (schedule_disk_io env t) < 2000
                \<or> get_position env = None")
  case True
  with assms have "out = []" by (auto simp: send_request_def Let_def split: if_splits)
  then show ?thesis by simp
next
  case False
  then obtain loc where loc: "get_position env = Some loc" by auto
  let ?t1 = "schedule_disk_io env t"
  let ?info = "calculate_grid_info env ?t1 loc"
  obtain s2 and o2 :: "'f out_msg list" and t2 where
    r2: "request_missing_info env chan ?info ?t1 = (s2, o2, t2)" using prod_cases3 by blast
  have i2: "issues (millis_issue env) (s2, o2, t2)"
    unfolding r2 [symmetric] by (rule issues_request_missing_info)
  obtain s3 and o3 :: "'f out_msg list" and t3 where
    r3: "fan_out_x env chan loc (- 1) t2 = (s3, o3, t3)" using prod_cases3 by blast
  have i3: "issues (millis_issue env) (s3, o3, t3)"
    unfolding r3 [symmetric] by (rule issues_fan_out_x)
  obtain s4 and o4 :: "'f out_msg list" and t4 where
    r4: "check_cache_blocks env chan (length (cache t3)) 0 t3 = (s4, o4, t4)" using prod_cases3 by blast
  have i4: "issues (millis_issue env) (s4, o4, t4)"
    unfolding r4 [symmetric] by (rule issues_check_cache_blocks)
  obtain s5 and o5 :: "'f out_msg list" and t5 where
    r5: "request_missing_info env chan ?info t4 = (s5, o5, t5)" using prod_cases3 by blast
  have i5: "issues (millis_issue env) (s5, o5, t5)"
    unfolding r5 [symmetric] by (rule issues_request_missing_info)
  obtain o6 :: "'f out_msg list" and t6 where
    r6: "send_terrain_report env chan loc t5 = (o6, t6)" by (cases "send_terrain_report env chan loc t5")
  note rep = send_terrain_report_out [OF r6]
  note d = send_request_def Let_def
  show ?thesis
  proof (cases s2)
    case True
    with assms False loc r2 have "(out, t') = (o2, t2)" by (simp add: d)
    with True i2 show ?thesis by (auto dest: issues_sent)
  next
    case n2: False
    with i2 have e2: "o2 = []" by (auto dest: issues_not_sent)
    show ?thesis
    proof (cases s3)
      case True
      with assms False loc r2 r3 n2 e2 have "(out, t') = (o3, t3)" by (simp add: d)
      with True i3 show ?thesis by (auto dest: issues_sent)
    next
      case n3: False
      with i3 have e3: "o3 = []" by (auto dest: issues_not_sent)
      show ?thesis
      proof (cases s4)
        case True
        with assms False loc r2 r3 r4 n2 e2 n3 e3 have "(out, t') = (o4, t4)" by (simp add: d)
        with True i4 show ?thesis by (auto dest: issues_sent)
      next
        case n4: False
        with i4 have e4: "o4 = []" by (auto dest: issues_not_sent)
        show ?thesis
        proof (cases s5)
          case True
          with assms False loc r2 r3 r4 r5 n2 e2 n3 e3 n4 e4 have "(out, t') = (o5, t5)"
            by (simp add: d)
          with True i5 show ?thesis by (auto dest: issues_sent)
        next
          case n5: False
          with i5 have e5: "o5 = []" by (auto dest: issues_not_sent)
          from assms False loc r2 r3 r4 r5 r6 n2 e2 n3 e3 n4 e4 n5 e5 have "(out, t') = (o6, t6)"
            by (simp add: d)
          with rep show ?thesis by simp
        qed
      qed
    qed
  qed
qed

lemma send_request_too_soon:
  "enable t \<noteq> 0 \<Longrightarrow> millis_pacing env - last_request_time_ms (schedule_disk_io env t) < 2000 \<Longrightarrow>
     send_request env chan t = ([], schedule_disk_io env t)"
  by (simp add: send_request_def Let_def)

lemma send_request_disabled: "enable t = 0 \<Longrightarrow> send_request env chan t = ([], t)"
  by (simp add: send_request_def)

lemma clock_difference:
  assumes "T1 \<le> T2" "T2 < T1 + 2000"
  shows "(of_nat T2 :: 32 word) - of_nat T1 < 2000"
proof -
  have "(of_nat T2 :: 32 word) - of_nat T1 = of_nat (T2 - T1)" using assms(1) by simp
  moreover have "unat (of_nat (T2 - T1) :: 32 word) = T2 - T1"
    using assms(2) by (simp add: unat_of_nat)
  ultimately show ?thesis using assms by (simp add: word_less_nat_alt)
qed

text \<open>
  C6: two runs of \<open>send_request\<close>, the second less than 2000 ms after the first, with
  no other issuance in between, send at most one TERRAIN\_REQUEST together; and
  whenever the pacing test finds the last issuance less than 2000 ms ago the run sends
  nothing and returns the object as \<open>schedule_disk_io\<close> left it: nothing about the
  skipped tick is kept. A run at least 2000 ms after the last issuance, with a known
  position and a chunk missing in the current tile, issues its request. Times are
  milliseconds since start, read through the 32-bit clock.
\<close>

theorem send_request_pacing:
  fixes env1 env2 env0 :: "('e, 'info, 'f) env" and t t0 t1 t2 t3 :: "'e terrain"
  assumes frame: "last_request_time_ms (schedule_disk_io env2 t2) = last_request_time_ms t2"
    and times: "T1 \<le> T1'" "T1' \<le> T2" "T2 < T1 + 2000"
    and clocks: "millis_pacing env1 = of_nat T1" "millis_issue env1 = of_nat T1'"
      "millis_pacing env2 = of_nat T2"
    and run1: "send_request env1 chan t = (out1, t1)"
    and between: "last_request_time_ms t2 = last_request_time_ms t1"
    and run2: "send_request env2 chan t2 = (out2, t3)"
  shows "length (filter is_request (out1 @ out2)) \<le> 1 \<and>
         (enable t0 \<noteq> 0 \<and> millis_pacing env0 - last_request_time_ms (schedule_disk_io env0 t0) < 2000
            \<longrightarrow> send_request env0 chan t0 = ([], schedule_disk_io env0 t0)) \<and>
         (enable t0 \<noteq> 0 \<and>
          \<not> millis_pacing env0 - last_request_time_ms (schedule_disk_io env0 t0) < 2000 \<and>
          get_position env0 = Some loc \<and>
          request_missing_info env0 chan (calculate_grid_info env0 (schedule_disk_io env0 t0) loc)
            (schedule_disk_io env0 t0) = (True, out0, t0')
            \<longrightarrow> send_request env0 chan t0 = (out0, t0'))"
proof (intro conjI)
  note o1 = send_request_outcome [OF run1] and o2 = send_request_outcome [OF run2]
  show "length (filter is_request (out1 @ out2)) \<le> 1"
  proof (cases "filter is_request out1 = []")
    case True
    have "length (filter is_request out2) \<le> 1"
      using order_trans [OF length_filter_le, of out2 1 is_request] o2 by blast
    with True show ?thesis by simp
  next
    case False
    with o1 clocks(2) have l: "last_request_time_ms t1 = of_nat T1'" by simp
    have d: "(of_nat T2 :: 32 word) - of_nat T1' < 2000"
      by (rule clock_difference) (use times in simp_all)
    have "out2 = []"
    proof (cases "enable t2 = 0")
      case True
      with run2 show ?thesis by (simp add: send_request_disabled)
    next
      case False
      have "millis_pacing env2 - last_request_time_ms (schedule_disk_io env2 t2) < 2000"
        using d by (simp add: frame between l clocks(3))
      from send_request_too_soon [OF False this, of chan] run2 show ?thesis by simp
    qed
    moreover have "length (filter is_request out1) \<le> 1"
      using order_trans [OF length_filter_le, of out1 1 is_request] o1 by blast
    ultimately show ?thesis by simp
  qed
next
  show "enable t0 \<noteq> 0 \<and> millis_pacing env0 - last_request_time_ms (schedule_disk_io env0 t0) < 2000
            \<longrightarrow> send_request env0 chan t0 = ([], schedule_disk_io env0 t0)"
    by (simp add: send_request_too_soon)
next
  show "enable t0 \<noteq> 0 \<and>
          \<not> millis_pacing env0 - last_request_time_ms (schedule_disk_io env0 t0) < 2000 \<and>
          get_position env0 = Some loc \<and>
          request_missing_info env0 chan (calculate_grid_info env0 (schedule_disk_io env0 t0) loc)
            (schedule_disk_io env0 t0) = (True, out0, t0')
            \<longrightarrow> send_request env0 chan t0 = (out0, t0')"
    by (simp add: send_request_def Let_def)
qed

lemma bitmap_mask_value: "bitmap_mask = 0xFFFFFFFFFFFFFF"
  by (simp add: bitmap_mask_def TERRAIN_GRID_BLOCK_MUL_X_def TERRAIN_GRID_BLOCK_MUL_Y_def)

lemma send_request_example_issue:
  "send_request (example_env GRID_CACHE_VALID 5000 5001) 0 (example_terrain 1 [])
     = ([TERRAIN_REQUEST 0 100000 200000 100 0xFFFFFFFFFFFFFF],
        \<lparr>enable = 1, grid_spacing = 100, last_request_time_ms = 5001, cache = [],
         collab = [\<lparr>loc_lat = 100000, loc_lng = 200000\<rparr>]\<rparr>)"
  by (simp add: send_request_def example_env_def example_terrain_def request_missing_info_def
        request_missing_def bitmap_mask_value)

lemma send_request_example_skip:
  "send_request (example_env GRID_CACHE_VALID 6000 6001) 0
       \<lparr>enable = 1, grid_spacing = 100, last_request_time_ms = 5001, cache = [],
         collab = [\<lparr>loc_lat = 100000, loc_lng = 200000\<rparr>]\<rparr>
     = ([],
        \<lparr>enable = 1, grid_spacing = 100, last_request_time_ms = 5001, cache = [],
         collab = [\<lparr>loc_lat = 100000, loc_lng = 200000\<rparr>]\<rparr>)"
  by (simp add: send_request_def example_env_def)

lemma send_request_example_again:
  "send_request (example_env GRID_CACHE_VALID 7001 7002) 0
       \<lparr>enable = 1, grid_spacing = 100, last_request_time_ms = 5001, cache = [],
         collab = [\<lparr>loc_lat = 100000, loc_lng = 200000\<rparr>]\<rparr>
     = ([TERRAIN_REQUEST 0 100000 200000 100 0xFFFFFFFFFFFFFF],
        \<lparr>enable = 1, grid_spacing = 100, last_request_time_ms = 7002, cache = [],
         collab = [\<lparr>loc_lat = 100000, loc_lng = 200000\<rparr>, \<lparr>loc_lat = 100000, loc_lng = 200000\<rparr>]\<rparr>)"
  by (simp add: send_request_def example_env_def request_missing_info_def
        request_missing_def bitmap_mask_value Let_def)

theorem send_request_pacing_witness:
  "send_request (example_env GRID_CACHE_VALID 5000 5001) 0 (example_terrain 1 [])
     = ([TERRAIN_REQUEST 0 100000 200000 100 0xFFFFFFFFFFFFFF],
        \<lparr>enable = 1, grid_spacing = 100, last_request_time_ms = 5001, cache = [],
         collab = [\<lparr>loc_lat = 100000, loc_lng = 200000\<rparr>]\<rparr>)
   \<and> send_request (example_env GRID_CACHE_VALID 6000 6001) 0
       \<lparr>enable = 1, grid_spacing = 100, last_request_time_ms = 5001, cache = [],
         collab = [\<lparr>loc_lat = 100000, loc_lng = 200000\<rparr>]\<rparr>
     = ([],
        \<lparr>enable = 1, grid_spacing = 100, last_request_time_ms = 5001, cache = [],
         collab = [\<lparr>loc_lat = 100000, loc_lng = 200000\<rparr>]\<rparr>)
   \<and> length (filter is_request
        ([TERRAIN_REQUEST 0 100000 200000 100 0xFFFFFFFFFFFFFF :: rat out_msg] @ [])) \<le> 1
   \<and> send_request (example_env GRID_CACHE_VALID 7001 7002) 0
       \<lparr>enable = 1, grid_spacing = 100, last_request_time_ms = 5001, cache = [],
         collab = [\<lparr>loc_lat = 100000, loc_lng = 200000\<rparr>]\<rparr>
     = ([TERRAIN_REQUEST 0 100000 200000 100 0xFFFFFFFFFFFFFF],
        \<lparr>enable = 1, grid_spacing = 100, last_request_time_ms = 7002, cache = [],
         collab = [\<lparr>loc_lat = 100000, loc_lng = 200000\<rparr>, \<lparr>loc_lat = 100000, loc_lng = 200000\<rparr>]\<rparr>)"
proof -
  let ?t1 = "\<lparr>enable = 1, grid_spacing = 100, last_request_time_ms = 5001, cache = [],
         collab = [\<lparr>loc_lat = 100000, loc_lng = 200000\<rparr>]\<rparr> :: Location list terrain"
  have f: "last_request_time_ms (schedule_disk_io (example_env GRID_CACHE_VALID 6000 6001) ?t1)
             = last_request_time_ms ?t1"
    by (simp add: example_env_def)
  have c: "millis_pacing (example_env GRID_CACHE_VALID 5000 5001) = of_nat 5000"
    "millis_issue (example_env GRID_CACHE_VALID 5000 5001) = of_nat 5001"
    "millis_pacing (example_env GRID_CACHE_VALID 6000 6001) = of_nat 6000"
    by (simp_all add: example_env_def)
  have "length (filter is_request
        ([TERRAIN_REQUEST 0 100000 200000 100 0xFFFFFFFFFFFFFF :: rat out_msg] @ [])) \<le> 1"
    using send_request_pacing [where ?T1.0 = 5000 and T1' = 5001 and ?T2.0 = 6000,
        OF f _ _ _ c send_request_example_issue refl send_request_example_skip]
    by simp
  then show ?thesis
    using send_request_example_issue send_request_example_skip send_request_example_again by simp
qed

text \<open>
  C3 (as amended): the fan-out attempts \<open>request_missing\<close> for all nine offsets of the
  3 x 3 grid, row by row, the centre \<open>(0, 0)\<close> included, stopping at the first issuance;
  the offset in a direction is \<open>x * 28 * 0.7f * grid_spacing\<close>, respectively
  \<open>y * 32 * 0.7f * grid_spacing\<close>, in single precision.
\<close>

theorem fan_out_nine_offsets:
  "fan_out_x env chan loc (- 1) t =
     attempt_offsets env chan loc
       [(- 1, - 1), (- 1, 0), (- 1, 1), (0, - 1), (0, 0), (0, 1), (1, - 1), (1, 0), (1, 1)] t
   \<and> fan_offset env t x TERRAIN_GRID_BLOCK_SIZE_X =
       float_mul env (float_mul env (float_of_int env (x * 28)) (float_0_7 env))
         (float_of_int env (sint (grid_spacing t)))
   \<and> fan_offset env t y TERRAIN_GRID_BLOCK_SIZE_Y =
       float_mul env (float_mul env (float_of_int env (y * 32)) (float_0_7 env))
         (float_of_int env (sint (grid_spacing t)))"
  using fan_out_x_nine [of env chan loc t]
  by (simp add: nine_offsets_def fan_offset_def TERRAIN_GRID_BLOCK_SIZE_X_def TERRAIN_GRID_BLOCK_SIZE_Y_def
        TERRAIN_GRID_MAVLINK_SIZE_def TERRAIN_GRID_BLOCK_MUL_X_def TERRAIN_GRID_BLOCK_MUL_Y_def)

lemma fan_out_example_nine:
  "fan_out_x (example_env GRID_CACHE_DISKWAIT 5000 5001) 0 \<lparr>loc_lat = 100000, loc_lng = 200000\<rparr> (- 1)
       (example_terrain 1 [])
     = (False, [],
        \<lparr>enable = 1, grid_spacing = 100, last_request_time_ms = 0, cache = [],
         collab = [\<lparr>loc_lat = 98040, loc_lng = 197760\<rparr>, \<lparr>loc_lat = 98040, loc_lng = 200000\<rparr>,
                   \<lparr>loc_lat = 98040, loc_lng = 202240\<rparr>, \<lparr>loc_lat = 100000, loc_lng = 197760\<rparr>,
                   \<lparr>loc_lat = 100000, loc_lng = 200000\<rparr>, \<lparr>loc_lat = 100000, loc_lng = 202240\<rparr>,
                   \<lparr>loc_lat = 101960, loc_lng = 197760\<rparr>, \<lparr>loc_lat = 101960, loc_lng = 200000\<rparr>,
                   \<lparr>loc_lat = 101960, loc_lng = 202240\<rparr>]\<rparr>)"
  by (simp add: fan_out_x_nine nine_offsets_def example_env_def example_terrain_def
        request_missing_info_def request_missing_def fan_offset_def
        TERRAIN_GRID_BLOCK_SIZE_X_def TERRAIN_GRID_BLOCK_SIZE_Y_def
        TERRAIN_GRID_MAVLINK_SIZE_def TERRAIN_GRID_BLOCK_MUL_X_def TERRAIN_GRID_BLOCK_MUL_Y_def)

lemma attempt_example_eight:
  "attempt_offsets (example_env GRID_CACHE_DISKWAIT 5000 5001) 0 \<lparr>loc_lat = 100000, loc_lng = 200000\<rparr>
       eight_neighbours (example_terrain 1 [])
     = (False, [],
        \<lparr>enable = 1, grid_spacing = 100, last_request_time_ms = 0, cache = [],
         collab = [\<lparr>loc_lat = 98040, loc_lng = 197760\<rparr>, \<lparr>loc_lat = 98040, loc_lng = 200000\<rparr>,
                   \<lparr>loc_lat = 98040, loc_lng = 202240\<rparr>, \<lparr>loc_lat = 100000, loc_lng = 197760\<rparr>,
                   \<lparr>loc_lat = 100000, loc_lng = 202240\<rparr>,
                   \<lparr>loc_lat = 101960, loc_lng = 197760\<rparr>, \<lparr>loc_lat = 101960, loc_lng = 200000\<rparr>,
                   \<lparr>loc_lat = 101960, loc_lng = 202240\<rparr>]\<rparr>)"
  by (simp add: eight_neighbours_def example_env_def example_terrain_def
        request_missing_info_def request_missing_def fan_offset_def
        TERRAIN_GRID_BLOCK_SIZE_X_def TERRAIN_GRID_BLOCK_SIZE_Y_def
        TERRAIN_GRID_MAVLINK_SIZE_def TERRAIN_GRID_BLOCK_MUL_X_def TERRAIN_GRID_BLOCK_MUL_Y_def)

text \<open>
  With every tile waiting for the disk the fan-out looks up nine addresses; the fifth is
  the tile of the current position itself.
\<close>

theorem fan_out_centre_counterexample:
  "collab (snd (snd (fan_out_x (example_env GRID_CACHE_DISKWAIT 5000 5001) 0
       \<lparr>loc_lat = 100000, loc_lng = 200000\<rparr> (- 1) (example_terrain 1 []))))
     = [\<lparr>loc_lat = 98040, loc_lng = 197760\<rparr>, \<lparr>loc_lat = 98040, loc_lng = 200000\<rparr>,
        \<lparr>loc_lat = 98040, loc_lng = 202240\<rparr>, \<lparr>loc_lat = 100000, loc_lng = 197760\<rparr>,
        \<lparr>loc_lat = 100000, loc_lng = 200000\<rparr>, \<lparr>loc_lat = 100000, loc_lng = 202240\<rparr>,
        \<lparr>loc_lat = 101960, loc_lng = 197760\<rparr>, \<lparr>loc_lat = 101960, loc_lng = 200000\<rparr>,
        \<lparr>loc_lat = 101960, loc_lng = 202240\<rparr>]
   \<and> fan_out_x (example_env GRID_CACHE_DISKWAIT 5000 5001) 0
       \<lparr>loc_lat = 100000, loc_lng = 200000\<rparr> (- 1) (example_terrain 1 [])
     \<noteq> attempt_offsets (example_env GRID_CACHE_DISKWAIT 5000 5001) 0
       \<lparr>loc_lat = 100000, loc_lng = 200000\<rparr> eight_neighbours (example_terrain 1 [])"
  by (simp add: fan_out_example_nine attempt_example_eight)

lemma wf_disabled_terrain: "wf_cache (cache disabled_terrain)"
  by (simp add: disabled_terrain_def unset_tile_def wf_cache_def wf_block_def list_all_iff
        TERRAIN_GRID_BLOCK_SIZE_X_def TERRAIN_GRID_BLOCK_SIZE_Y_def TERRAIN_GRID_MAVLINK_SIZE_def
        TERRAIN_GRID_BLOCK_MUL_X_def TERRAIN_GRID_BLOCK_MUL_Y_def)

lemma wf_zero_packet: "wf_packet zero_packet"
  by (simp add: zero_packet_def wf_packet_def TERRAIN_GRID_MAVLINK_SIZE_def)

lemma find_zero_packet: "find_packet_grid zero_packet (cache disabled_terrain) 0 = 0"
  by (simp add: find_packet_grid.simps zero_packet_def disabled_terrain_def unset_tile_def)

lemma apply_zero_packet:
  "apply_terrain_data False zero_packet disabled_terrain =
     Inr (Some (disabled_terrain\<lparr>cache := [chunk_stored zero_packet unset_tile, unset_tile]\<rparr>))"
proof -
  have r: "find_packet_grid zero_packet (cache disabled_terrain) 0 < length (cache disabled_terrain)"
    unfolding find_zero_packet by (simp add: disabled_terrain_def)
  show ?thesis
    using apply_terrain_data_accepted [OF wf_disabled_terrain wf_zero_packet r, of False]
    unfolding find_zero_packet by (simp add: disabled_terrain_def)
qed

lemma chunk_stored_zero_packet:
  "state (chunk_stored zero_packet unset_tile) = GRID_CACHE_DIRTY"
  "bitmap (grid (chunk_stored zero_packet unset_tile)) = 1"
  "height (grid (chunk_stored zero_packet unset_tile)) ! 0 ! 0 = 500"
  "height (grid (chunk_stored zero_packet unset_tile)) ! 3 ! 3 = 500"
  by (simp_all add: chunk_stored_def zero_packet_def unset_tile_def idx_x_def idx_y_def
        block_written_def row_written_def TERRAIN_GRID_BLOCK_MUL_Y_def TERRAIN_GRID_MAVLINK_SIZE_def
        numeral_3_eq_3)

text \<open>
  C4: with \<open>enable = 0\<close> the scheduler does nothing, but \<open>handle_data\<close> does not test
  \<open>enable\<close>: a TERRAIN\_DATA packet for the all-zero address is written into the first
  entry of the table, which becomes Dirty.
\<close>

theorem handle_data_ignores_enable:
  "enable disabled_terrain = 0
   \<and> send_request (example_env GRID_CACHE_VALID 5000 5001) 0 disabled_terrain = ([], disabled_terrain)
   \<and> (case handle_data (example_env GRID_CACHE_VALID 5000 5001) 0 (MSG_TERRAIN_DATA zero_packet)
              disabled_terrain of
        Inr (out, t') \<Rightarrow>
          map (\<lambda>c. (state c, bitmap (grid c), height (grid c) ! 0 ! 0, height (grid c) ! 3 ! 3)) (cache t')
      | Inl e \<Rightarrow> [])
     = [(GRID_CACHE_DIRTY, 1, 500, 500), (GRID_CACHE_INVALID, 0, 0, 0)]
   \<and> map (\<lambda>c. (state c, bitmap (grid c), height (grid c) ! 0 ! 0, height (grid c) ! 3 ! 3))
        (cache disabled_terrain)
     = [(GRID_CACHE_INVALID, 0, 0, 0), (GRID_CACHE_INVALID, 0, 0, 0)]"
proof -
  have d: "TERRAIN_DEBUG (example_env GRID_CACHE_VALID 5000 5001) = False"
    "update (example_env GRID_CACHE_VALID 5000 5001) = (\<lambda>s. s)"
    by (simp_all add: example_env_def)
  have u: "map (\<lambda>c. (state c, bitmap (grid c), height (grid c) ! 0 ! 0, height (grid c) ! 3 ! 3))
             [unset_tile] = [(GRID_CACHE_INVALID, 0, 0, 0)]"
    by (simp add: unset_tile_def)
  have e: "enable disabled_terrain = 0" by (simp add: disabled_terrain_def)
  have c: "cache disabled_terrain = [unset_tile, unset_tile]" by (simp add: disabled_terrain_def)
  show ?thesis
    using u by (simp add: e c send_request_disabled handle_data_def handle_terrain_data_def d
        apply_zero_packet chunk_stored_zero_packet)
qed

theorem terrain_data_order_independent_witness:
  "\<exists>t' t''.
     handle_terrain_data_list (example_env GRID_CACHE_VALID 0 0)
       [example_packet 3 (replicate 16 7), example_packet 5 (replicate 16 9)]
       (example_terrain 1 [example_tile GRID_CACHE_VALID 0]) = Inr t' \<and>
     handle_terrain_data_list (example_env GRID_CACHE_VALID 0 0)
       [example_packet 5 (replicate 16 9), example_packet 3 (replicate 16 7)]
       (example_terrain 1 [example_tile GRID_CACHE_VALID 0]) = Inr t'' \<and>
     bitmap (grid (cache t'' ! 0)) = bitmap (grid (cache t' ! 0)) \<and>
     bit (bitmap (grid (cache t' ! 0))) 3 \<and> bit (bitmap (grid (cache t' ! 0))) 5 \<and>
     \<not> bit (bitmap (grid (cache t' ! 0))) 4"
proof -
  let ?env = "example_env GRID_CACHE_VALID 0 0"
  let ?t = "example_terrain 1 [example_tile GRID_CACHE_VALID 0]"
  let ?ps = "[example_packet 3 (replicate 16 7), example_packet 5 (replicate 16 9)]"
  let ?qs = "[example_packet 5 (replicate 16 9), example_packet 3 (replicate 16 7)]"
  have k: "keeps_grids ?env" by (simp add: keeps_grids_def example_env_def)
  have i: "0 < length (cache ?t)" by (simp add: example_terrain_def)
  have ps: "\<forall>p \<in> set ?ps. wf_packet p \<and> gridbit p < 56 \<and> addresses p (cache ?t ! 0) \<and>
               (\<forall>j < 0. \<not> addresses p (cache ?t ! j)) \<and>
               (TERRAIN_DEBUG ?env \<longrightarrow> samples_in_range p)"
    by (simp add: wf_example_packet)
       (simp add: example_packet_def example_terrain_def example_tile_def addresses_def example_env_def)
  have qs: "mset ?qs = mset ?ps" by (simp add: add_mset_commute)
  obtain t' t'' where r: "handle_terrain_data_list ?env ?ps ?t = Inr t'"
      "handle_terrain_data_list ?env ?qs ?t = Inr t''"
      "\<forall>n. bit (bitmap (grid (cache t' ! 0))) n \<longleftrightarrow>
             bit (bitmap (grid (cache ?t ! 0))) n \<or> (\<exists>p \<in> set ?ps. unat (gridbit p) = n)"
      "bitmap (grid (cache t'' ! 0)) = bitmap (grid (cache t' ! 0))"
    using terrain_data_order_independent [OF k wf_example_terrain i ps qs] by blast
  have b: "bit (bitmap (grid (cache t' ! 0))) n \<longleftrightarrow> n = 3 \<or> n = 5" for n
    using r(3) by (auto simp: example_terrain_def example_tile_def example_packet_def)
  from r(1,2,4) b [of 3] b [of 5] b [of 4] show ?thesis by auto
qed

end
